theory Spec2Isabelle
  imports Main "HOL-Library.Sublist"
begin

section \<open>Python values, exceptions and the observable world\<close>

text \<open>
  The code distinguishes \<^verbatim>\<open>SlackApiError\<close> (caught inside the Slack helper) from every
  other \<^verbatim>\<open>Exception\<close> (caught only by the view). A \<^verbatim>\<open>SlackApiError\<close> carries its message
  \<^verbatim>\<open>str(e)\<close> and, when it has a response, the response's \<^verbatim>\<open>error\<close> string.
\<close>

datatype exn = SlackApiError string "string option" | OtherException string

fun exn_str :: "exn \<Rightarrow> string" where
  "exn_str (SlackApiError msg err) = msg"
| "exn_str (OtherException msg) = msg"

text \<open>\<^verbatim>\<open>e.response.get('error') if getattr(e, 'response', None) else e\<close>\<close>

fun api_error_text :: "exn \<Rightarrow> string" where
  "api_error_text (SlackApiError msg (Some err)) = err"
| "api_error_text (SlackApiError msg None) = msg"
| "api_error_text (OtherException msg) = msg"

text \<open>Truthiness of an \<^verbatim>\<open>Optional[str]\<close>: neither \<^verbatim>\<open>None\<close> nor the empty string.\<close>

fun truthy :: "string option \<Rightarrow> bool" where
  "truthy None = False"
| "truthy (Some s) = (s \<noteq> [])"

text \<open>\<^verbatim>\<open>x or None\<close> and \<^verbatim>\<open>x or d\<close> on optional strings.\<close>

definition or_none :: "string option \<Rightarrow> string option" where
  "or_none x = (if truthy x then x else None)"

fun py_or :: "string option \<Rightarrow> string \<Rightarrow> string" where
  "py_or None d = d"
| "py_or (Some s) d = (if s = [] then d else s)"

text \<open>\<^verbatim>\<open>s.lstrip(c)\<close> for a single character \<open>c\<close>.\<close>

definition lstrip :: "char \<Rightarrow> string \<Rightarrow> string" where
  "lstrip c s = dropWhile (\<lambda>x. x = c) s"

text \<open>\<^verbatim>\<open>sep.join(parts)\<close>\<close>

fun join :: "string \<Rightarrow> string list \<Rightarrow> string" where
  "join sep [] = []"
| "join sep [x] = x"
| "join sep (x # y # ys) = x @ sep @ join sep (y # ys)"

text \<open>Decimal rendering of Python integers, as an f-string prints them.\<close>

definition digit_char :: "nat \<Rightarrow> char" where
  "digit_char d = ''0123456789'' ! d"

function show_nat :: "nat \<Rightarrow> string" where
  "show_nat n = (if n < 10 then [digit_char n] else show_nat (n div 10) @ [digit_char (n mod 10)])"
  by pat_completeness auto
termination
  by (relation "measure (\<lambda>n. n)") auto

declare show_nat.simps [simp del]

definition show_int :: "int \<Rightarrow> string" where
  "show_int i = (if i < 0 then CHR ''-'' # show_nat (nat (- i)) else show_nat (nat i))"

definition show_bool :: "bool \<Rightarrow> string" where
  "show_bool b = (if b then ''True'' else ''False'')"

subsection \<open>Slack configuration and the external Slack service\<close>

record slack_env =
  bot_token :: string
  notify_dry_run :: bool
  shikigami_channel :: "string option"
  shikigami_manager :: "string option"
  shikigami_manager_dm :: bool
  surgery_channel :: "string option"
  surgery_manager :: "string option"
  surgery_manager_dm :: bool

text \<open>
  The JSON objects of the Slack responses, with the keys the code reads. A missing key is
  \<open>None\<close>; \<^verbatim>\<open>deleted\<close> is read for its truthiness only.
\<close>

record channel =
  ch_name :: "string option"
  ch_id :: "string option"

record profile =
  display_name :: "string option"
  real_name :: "string option"

record member =
  m_deleted :: bool
  m_name :: "string option"
  m_profile :: "profile option"
  m_id :: "string option"

record channels_page =
  channels :: "channel list"
  ch_next_cursor :: "string option"

record users_page =
  members :: "member list"
  u_next_cursor :: "string option"

text \<open>
  The \<^verbatim>\<open>WebClient\<close> of the Slack SDK is outside the repository. It is a parameter: each
  method answers or raises. The directory does not change during a run, so an answer
  depends on the arguments only.
\<close>

record webclient =
  conversations_list :: "string option \<Rightarrow> exn + channels_page"
  users_list :: "string option \<Rightarrow> exn + users_page"
  conversations_open :: "string \<Rightarrow> exn + string option"
  chat_postMessage :: "string \<Rightarrow> string \<Rightarrow> exn + string option"

record slack_client =
  env :: slack_env
  client :: webclient

datatype api_call =
    ConversationsList "string option"
  | UsersList "string option"
  | ConversationsOpen string
  | ChatPostMessage string string

datatype level = INFO | WARNING | ERROR

text \<open>
  What a run can change: the application log, the network calls issued so far (both in
  order of occurrence) and the three \<^verbatim>\<open>lru_cache\<close> tables of the client instance, most
  recently used entry first.
\<close>

record state =
  logs :: "(level \<times> string) list"
  calls :: "api_call list"
  channel_cache :: "(string option \<times> string option) list"
  user_cache :: "(string option \<times> string option) list"
  dm_cache :: "(string \<times> string option) list"

text \<open>
  A computation returns a value or raises, and leaves a state; \<open>None\<close> stands for a
  computation that never returns (only the pagination loops can do that).
\<close>

type_synonym 'a m = "state \<Rightarrow> ((exn + 'a) \<times> state) option"

definition ret :: "'a \<Rightarrow> 'a m" where
  "ret x = (\<lambda>s. Some (Inr x, s))"

definition throw :: "exn \<Rightarrow> 'a m" where
  "throw e = (\<lambda>s. Some (Inl e, s))"

definition bnd :: "'a m \<Rightarrow> ('a \<Rightarrow> 'b m) \<Rightarrow> 'b m" where
  "bnd f g = (\<lambda>s. case f s of
      None \<Rightarrow> None
    | Some (Inl e, s') \<Rightarrow> Some (Inl e, s')
    | Some (Inr x, s') \<Rightarrow> g x s')"

text \<open>\<^verbatim>\<open>try: f  except SlackApiError as e: h\<close>\<close>

definition catch_api :: "'a m \<Rightarrow> (exn \<Rightarrow> 'a m) \<Rightarrow> 'a m" where
  "catch_api f h = (\<lambda>s. case f s of
      None \<Rightarrow> None
    | Some (Inl (SlackApiError msg err), s') \<Rightarrow> h (SlackApiError msg err) s'
    | Some (Inl (OtherException msg), s') \<Rightarrow> Some (Inl (OtherException msg), s')
    | Some (Inr x, s') \<Rightarrow> Some (Inr x, s'))"

text \<open>\<^verbatim>\<open>try: f  except Exception as e: h\<close>\<close>

definition catch_all :: "'a m \<Rightarrow> (exn \<Rightarrow> 'a m) \<Rightarrow> 'a m" where
  "catch_all f h = (\<lambda>s. case f s of
      None \<Rightarrow> None
    | Some (Inl e, s') \<Rightarrow> h e s'
    | Some (Inr x, s') \<Rightarrow> Some (Inr x, s'))"

definition app_log :: "level \<Rightarrow> string \<Rightarrow> unit m" where
  "app_log lv line = (\<lambda>s. Some (Inr (), s\<lparr>logs := logs s @ [(lv, line)]\<rparr>))"

text \<open>A network call is recorded, then answers or raises as the service does.\<close>

definition net :: "api_call \<Rightarrow> (exn + 'a) \<Rightarrow> 'a m" where
  "net c answer = (\<lambda>s. Some (answer, s\<lparr>calls := calls s @ [c]\<rparr>))"

subsection \<open>\<^verbatim>\<open>functools.lru_cache(maxsize=256)\<close>\<close>

text \<open>
  A hit moves the entry to the front; a miss runs the function and, when it returns,
  stores the result in front, dropping the least recently used entry of a full table.
  A call that raises stores nothing.
\<close>

definition lru_hit :: "'k \<Rightarrow> 'v \<Rightarrow> ('k \<times> 'v) list \<Rightarrow> ('k \<times> 'v) list" where
  "lru_hit k v c = (k, v) # filter (\<lambda>kv. fst kv \<noteq> k) c"

definition lru_store :: "'k \<Rightarrow> 'v \<Rightarrow> ('k \<times> 'v) list \<Rightarrow> ('k \<times> 'v) list" where
  "lru_store k v c = take 256 ((k, v) # c)"

section \<open>The Slack client (\<^verbatim>\<open>app/integrations/slack_helpers.py\<close>)\<close>

text \<open>\<^verbatim>\<open>SlackClient._looks_like_id\<close>\<close>

fun looks_like_id :: "string option \<Rightarrow> bool" where
  "looks_like_id None = False"
| "looks_like_id (Some []) = False"
| "looks_like_id (Some (c # cs)) = (c \<in> {CHR ''C'', CHR ''D'', CHR ''G'', CHR ''U''})"

text \<open>\<^verbatim>\<open>str.startswith("U")\<close>\<close>

fun startswith_U :: "string \<Rightarrow> bool" where
  "startswith_U [] = False"
| "startswith_U (c # cs) = (c = CHR ''U'')"

text \<open>\<^verbatim>\<open>SlackClient._emit_log\<close>: one INFO line per call.\<close>

definition emit_line :: "bool \<Rightarrow> string \<Rightarrow> string \<Rightarrow> string \<Rightarrow> string option \<Rightarrow> string option \<Rightarrow> string" where
  "emit_line dry phase target text resolved extra =
     ''[Slack '' @ phase @ ''] target='' @ target
       @ (case resolved of None \<Rightarrow> [] | Some r \<Rightarrow> if r = [] then [] else '' resolved='' @ r)
       @ '' '' @ (if dry then ''dry_run=true'' else ''dry_run=false'')
       @ '' text='' @ text
       @ (case extra of None \<Rightarrow> [] | Some x \<Rightarrow> if x = [] then [] else '' ('' @ x @ '')'')"

definition emit_log :: "slack_client \<Rightarrow> string \<Rightarrow> string \<Rightarrow> string \<Rightarrow> string option \<Rightarrow> string option \<Rightarrow> unit m" where
  "emit_log sc phase target text resolved extra =
     app_log INFO (emit_line (notify_dry_run (env sc)) phase target text resolved extra)"

text \<open>
  The pagination loop of \<^verbatim>\<open>resolve_channel_id\<close>: \<^verbatim>\<open>while True\<close>, one
  \<^verbatim>\<open>conversations_list\<close> call per round, left at the first channel of that name, at an
  empty cursor, or by an exception of the call. It runs for as long as the service hands
  out cursors.
\<close>

partial_function (option) scan_channels ::
  "webclient \<Rightarrow> string \<Rightarrow> string option \<Rightarrow> state \<Rightarrow> ((exn + string option) \<times> state) option"
where
  "scan_channels wc cname cursor s =
     (case conversations_list wc cursor of
        Inl e \<Rightarrow> Some (Inl e, s\<lparr>calls := calls s @ [ConversationsList cursor]\<rparr>)
      | Inr resp \<Rightarrow>
          (case find (\<lambda>ch. ch_name ch = Some cname) (channels resp) of
             Some ch \<Rightarrow> Some (Inr (ch_id ch), s\<lparr>calls := calls s @ [ConversationsList cursor]\<rparr>)
           | None \<Rightarrow>
               (case or_none (ch_next_cursor resp) of
                  None \<Rightarrow> Some (Inr None, s\<lparr>calls := calls s @ [ConversationsList cursor]\<rparr>)
                | Some c \<Rightarrow>
                    scan_channels wc cname (Some c)
                      (s\<lparr>calls := calls s @ [ConversationsList cursor]\<rparr>))))"

text \<open>The body of \<^verbatim>\<open>resolve_channel_id\<close>, under the cache.\<close>

definition resolve_channel_id_body :: "slack_client \<Rightarrow> string option \<Rightarrow> string option m" where
  "resolve_channel_id_body sc name_or_id =
     (case name_or_id of
        None \<Rightarrow> ret None
      | Some n \<Rightarrow>
          if n = [] then ret None
          else if looks_like_id (Some n) then ret (Some n)
          else catch_api (scan_channels (client sc) (lstrip CHR ''#'' n) None)
                 (\<lambda>e. bnd (emit_log sc ''ERROR'' (''#'' @ lstrip CHR ''#'' n) ''(resolve_channel_id)''
                              None (Some (api_error_text e)))
                        (\<lambda>_. ret None)))"

definition resolve_channel_id :: "slack_client \<Rightarrow> string option \<Rightarrow> string option m" where
  "resolve_channel_id sc name_or_id = (\<lambda>s.
     case map_of (channel_cache s) name_or_id of
       Some v \<Rightarrow> Some (Inr v, s\<lparr>channel_cache := lru_hit name_or_id v (channel_cache s)\<rparr>)
     | None \<Rightarrow>
         (case resolve_channel_id_body sc name_or_id s of
            None \<Rightarrow> None
          | Some (Inl e, s') \<Rightarrow> Some (Inl e, s')
          | Some (Inr v, s') \<Rightarrow>
              Some (Inr v, s'\<lparr>channel_cache := lru_store name_or_id v (channel_cache s')\<rparr>)))"

text \<open>The test \<^verbatim>\<open>needle in (username, display, realname)\<close> of \<^verbatim>\<open>resolve_user_id\<close>.\<close>

definition profile_field :: "(profile \<Rightarrow> string option) \<Rightarrow> member \<Rightarrow> string" where
  "profile_field f u = (case m_profile u of None \<Rightarrow> [] | Some p \<Rightarrow> py_or (f p) [])"

definition user_matches :: "string \<Rightarrow> member \<Rightarrow> bool" where
  "user_matches needle u =
     (needle = py_or (m_name u) [] \<or> needle = profile_field display_name u
        \<or> needle = profile_field real_name u)"

text \<open>The pagination loop of \<^verbatim>\<open>resolve_user_id\<close>; deleted members are passed over.\<close>

partial_function (option) scan_users ::
  "webclient \<Rightarrow> string \<Rightarrow> string option \<Rightarrow> state \<Rightarrow> ((exn + string option) \<times> state) option"
where
  "scan_users wc needle cursor s =
     (case users_list wc cursor of
        Inl e \<Rightarrow> Some (Inl e, s\<lparr>calls := calls s @ [UsersList cursor]\<rparr>)
      | Inr resp \<Rightarrow>
          (case find (\<lambda>u. \<not> m_deleted u \<and> user_matches needle u) (members resp) of
             Some u \<Rightarrow> Some (Inr (m_id u), s\<lparr>calls := calls s @ [UsersList cursor]\<rparr>)
           | None \<Rightarrow>
               (case or_none (u_next_cursor resp) of
                  None \<Rightarrow> Some (Inr None, s\<lparr>calls := calls s @ [UsersList cursor]\<rparr>)
                | Some c \<Rightarrow>
                    scan_users wc needle (Some c)
                      (s\<lparr>calls := calls s @ [UsersList cursor]\<rparr>))))"

definition resolve_user_id_body :: "slack_client \<Rightarrow> string option \<Rightarrow> string option m" where
  "resolve_user_id_body sc name_or_id =
     (case name_or_id of
        None \<Rightarrow> ret None
      | Some n \<Rightarrow>
          if n = [] then ret None
          else if looks_like_id (Some n) \<and> startswith_U n then ret (Some n)
          else catch_api (scan_users (client sc) (lstrip CHR ''@'' n) None)
                 (\<lambda>e. bnd (emit_log sc ''ERROR'' (''user:'' @ lstrip CHR ''@'' n) ''(resolve_user_id)''
                              None (Some (api_error_text e)))
                        (\<lambda>_. ret None)))"

definition resolve_user_id :: "slack_client \<Rightarrow> string option \<Rightarrow> string option m" where
  "resolve_user_id sc name_or_id = (\<lambda>s.
     case map_of (user_cache s) name_or_id of
       Some v \<Rightarrow> Some (Inr v, s\<lparr>user_cache := lru_hit name_or_id v (user_cache s)\<rparr>)
     | None \<Rightarrow>
         (case resolve_user_id_body sc name_or_id s of
            None \<Rightarrow> None
          | Some (Inl e, s') \<Rightarrow> Some (Inl e, s')
          | Some (Inr v, s') \<Rightarrow>
              Some (Inr v, s'\<lparr>user_cache := lru_store name_or_id v (user_cache s')\<rparr>)))"

definition dm_channel_for_body :: "slack_client \<Rightarrow> string \<Rightarrow> string option m" where
  "dm_channel_for_body sc user_id =
     (if user_id = [] then ret None
      else catch_api (net (ConversationsOpen user_id) (conversations_open (client sc) user_id))
             (\<lambda>e. bnd (emit_log sc ''ERROR'' (''dm:'' @ user_id) ''(conversations_open)''
                          None (Some (api_error_text e)))
                    (\<lambda>_. ret None)))"

definition dm_channel_for :: "slack_client \<Rightarrow> string \<Rightarrow> string option m" where
  "dm_channel_for sc user_id = (\<lambda>s.
     case map_of (dm_cache s) user_id of
       Some v \<Rightarrow> Some (Inr v, s\<lparr>dm_cache := lru_hit user_id v (dm_cache s)\<rparr>)
     | None \<Rightarrow>
         (case dm_channel_for_body sc user_id s of
            None \<Rightarrow> None
          | Some (Inl e, s') \<Rightarrow> Some (Inl e, s')
          | Some (Inr v, s') \<Rightarrow>
              Some (Inr v, s'\<lparr>dm_cache := lru_store user_id v (dm_cache s')\<rparr>)))"

text \<open>
  \<^verbatim>\<open>SlackClient._post\<close>: the SKIP line, or the PLAN line followed by the DRY-RUN line, or
  by the \<^verbatim>\<open>chat_postMessage\<close> call and its SENT or ERROR line; a \<^verbatim>\<open>SlackApiError\<close> of the
  call is logged and raised again.
\<close>

definition post :: "slack_client \<Rightarrow> string option \<Rightarrow> string option \<Rightarrow> string \<Rightarrow> unit m" where
  "post sc channel text target_label =
     (if \<not> truthy channel \<or> \<not> truthy text then
        emit_log sc ''SKIP'' target_label (py_or text ''(empty)'') channel
          (Some ''missing channel or text'')
      else
        bnd (emit_log sc ''PLAN'' target_label (py_or text []) channel None) (\<lambda>_.
          if notify_dry_run (env sc) then
            emit_log sc ''DRY-RUN'' target_label (py_or text []) channel None
          else
            catch_api
              (bnd (net (ChatPostMessage (py_or channel []) (py_or text []))
                      (chat_postMessage (client sc) (py_or channel []) (py_or text [])))
                 (\<lambda>ts. emit_log sc ''SENT'' target_label (py_or text []) channel
                          (if truthy ts then Some (''ts='' @ py_or ts []) else None)))
              (\<lambda>e. bnd (emit_log sc ''ERROR'' target_label (py_or text []) channel
                           (Some (api_error_text e)))
                     (\<lambda>_. throw e))))"

definition send_to_shikigami_feed :: "slack_client \<Rightarrow> string \<Rightarrow> bool \<Rightarrow> unit m" where
  "send_to_shikigami_feed sc text ping_channel =
     bnd (if truthy (shikigami_channel (env sc))
          then resolve_channel_id sc (shikigami_channel (env sc)) else ret None)
       (\<lambda>ch. if \<not> truthy ch then
                emit_log sc ''SKIP''
                  (py_or (shikigami_channel (env sc)) ''(unset:SLACK_SHIKIGAMI_CHANNEL)'')
                  (if ping_channel then ''<!channel> '' @ text else text)
                  None (Some ''channel not resolvable'')
              else
                post sc ch (Some (if ping_channel then ''<!channel> '' @ text else text))
                  (py_or (shikigami_channel (env sc)) ''(unset:SLACK_SHIKIGAMI_CHANNEL)''))"

definition send_to_surgery_channel :: "slack_client \<Rightarrow> string \<Rightarrow> bool \<Rightarrow> unit m" where
  "send_to_surgery_channel sc text ping_channel =
     bnd (if truthy (surgery_channel (env sc))
          then resolve_channel_id sc (surgery_channel (env sc)) else ret None)
       (\<lambda>ch. if \<not> truthy ch then
                emit_log sc ''SKIP''
                  (py_or (surgery_channel (env sc)) ''(unset:SLACK_SURGERY_CHANNEL)'')
                  (if ping_channel then ''<!channel> '' @ text else text)
                  None (Some ''channel not resolvable'')
              else
                post sc ch (Some (if ping_channel then ''<!channel> '' @ text else text))
                  (py_or (surgery_channel (env sc)) ''(unset:SLACK_SURGERY_CHANNEL)''))"

definition dm_user_if_enabled :: "slack_client \<Rightarrow> bool \<Rightarrow> string \<Rightarrow> string option \<Rightarrow> string \<Rightarrow> unit m" where
  "dm_user_if_enabled sc enabled who_label who_value text =
     (if \<not> enabled then
        emit_log sc ''SKIP'' (''dm:'' @ who_label) text None (Some (who_label @ ''_DM=false''))
      else if \<not> truthy who_value then
        emit_log sc ''SKIP'' (''dm:'' @ who_label) text None (Some (''unset:'' @ who_label))
      else
        bnd (resolve_user_id sc who_value) (\<lambda>uid.
          if \<not> truthy uid then
            emit_log sc ''SKIP'' (''dm:'' @ py_or who_value []) text None
              (Some (who_label @ '' not resolvable''))
          else
            bnd (dm_channel_for sc (py_or uid [])) (\<lambda>dm.
              if \<not> truthy dm then
                emit_log sc ''SKIP'' (''dm:'' @ py_or uid []) text None (Some ''could not open DM'')
              else
                post sc dm (Some text) (''dm:'' @ py_or uid []))))"

definition dm_surgery_manager :: "slack_client \<Rightarrow> string \<Rightarrow> unit m" where
  "dm_surgery_manager sc text =
     dm_user_if_enabled sc (surgery_manager_dm (env sc)) ''SLACK_SURGERY_MANAGER''
       (surgery_manager (env sc)) text"

definition dm_shikigami_manager :: "slack_client \<Rightarrow> string \<Rightarrow> unit m" where
  "dm_shikigami_manager sc text =
     dm_user_if_enabled sc (shikigami_manager_dm (env sc)) ''SLACK_SHIKIGAMI_MANAGER''
       (shikigami_manager (env sc)) text"

text \<open>
  \<^verbatim>\<open>SlackClient.__init__\<close>: warns about an empty token. The cache tables are keyed by the
  instance too, so a new instance starts with no entry of its own.
\<close>

definition slack_client_init :: "slack_client \<Rightarrow> unit m" where
  "slack_client_init sc =
     bnd (if bot_token (env sc) = [] then
            app_log WARNING
              ''SLACK_BOT_TOKEN is empty; Slack API calls will fail unless SLACK_NOTIFY_DRY_RUN=true.''
          else ret ())
       (\<lambda>_ s. Some (Inr (), s\<lparr>channel_cache := [], user_cache := [], dm_cache := []\<rparr>))"

section \<open>The reminder sweep (\<^verbatim>\<open>surgery_notification\<close> in \<^verbatim>\<open>app/main/views.py\<close>)\<close>

text \<open>
  A row of \<^verbatim>\<open>experiment.Surgery\<close> with the columns the view reads (dates as day numbers, so
  that the difference of two dates is a number of days), and a row of
  \<^verbatim>\<open>experiment.SurgeryStatus\<close> as the dictionary it is fetched as.
\<close>

record entry =
  animal_id :: int
  surgery_id :: int
  surgery_date :: int
  username :: string
  mouse_room :: "string option"

type_synonym status_row = "string \<rightharpoonup> int"

text \<open>
  The record store (DataJoint) and the library functions used for the message text
  (\<^verbatim>\<open>str.title\<close>, Flask's \<^verbatim>\<open>url_for\<close>, the ISO rendering of a date) are outside the
  repository and are parameters. The store evaluates the restriction string by itself.
\<close>

record store =
  create_virtual_module :: "string \<Rightarrow> string \<Rightarrow> exn + unit"
  fetch_surgeries :: "string \<Rightarrow> exn + entry list"
  fetch_statuses :: "entry \<Rightarrow> exn + status_row list"

record lib =
  title :: "string \<Rightarrow> string"
  url_for :: "int \<Rightarrow> int \<Rightarrow> string"
  date_str :: "int \<Rightarrow> string"

text \<open>The local counters of the view.\<close>

record tally =
  sent :: nat
  skipped :: nat
  errors :: nat
  "notes" :: "string list"

record summary =
  sum_status :: string
  sum_date :: string
  sum_dry_run :: bool
  sum_sent :: nat
  sum_skipped :: nat
  sum_errors :: nat
  sum_notes :: "string list"
  sum_forced :: bool

datatype response =
    TestOk bool string
  | TestError string
  | Summary summary

text \<open>An external call that changes nothing this model observes.\<close>

definition ext :: "(exn + 'a) \<Rightarrow> 'a m" where
  "ext answer = (\<lambda>s. Some (answer, s))"

text \<open>\<^verbatim>\<open>try: f  except Exception as e: h  else: g\<close>\<close>

definition try_except_else :: "'a m \<Rightarrow> (exn \<Rightarrow> 'b m) \<Rightarrow> ('a \<Rightarrow> 'b m) \<Rightarrow> 'b m" where
  "try_except_else f h g = (\<lambda>s. case f s of
      None \<Rightarrow> None
    | Some (Inl e, s') \<Rightarrow> h e s'
    | Some (Inr x, s') \<Rightarrow> g x s')"

definition num_to_word :: "int \<rightharpoonup> string" where
  "num_to_word = [1 \<mapsto> ''one'', 2 \<mapsto> ''two'', 3 \<mapsto> ''three'']"

text \<open>\<^verbatim>\<open>status.get(key, 0)\<close>\<close>

definition status_get :: "status_row \<Rightarrow> string \<Rightarrow> int" where
  "status_get status key = (case status key of None \<Rightarrow> 0 | Some v \<Rightarrow> v)"

definition should_send :: "bool \<Rightarrow> status_row \<Rightarrow> string \<Rightarrow> bool" where
  "should_send force status day_key =
     (force \<or> (status_get status ''euthanized'' = 0 \<and> status_get status day_key = 0))"

definition base_msg :: "lib \<Rightarrow> entry \<Rightarrow> string" where
  "base_msg lb entry =
     title lb (username entry) @ '' needs to check animal '' @ show_int (animal_id entry)
       @ '' in room '' @ (case mouse_room entry of None \<Rightarrow> ''N/A'' | Some r \<Rightarrow> r)
       @ '' for surgery on '' @ date_str lb (surgery_date entry) @ ''. ''
       @ ''<'' @ url_for lb (animal_id entry) (surgery_id entry) @ ''|Update Status Here>''"

text \<open>The three deliveries of the \<^verbatim>\<open>try\<close> block, in the order of the source.\<close>

definition dispatch :: "slack_client \<Rightarrow> lib \<Rightarrow> entry \<Rightarrow> unit m" where
  "dispatch sc lb entry =
     bnd (send_to_surgery_channel sc (''Reminder: '' @ base_msg lb entry) True) (\<lambda>_.
     bnd (dm_surgery_manager sc (base_msg lb entry)) (\<lambda>_.
     send_to_shikigami_feed sc (''[surgery] '' @ base_msg lb entry) False))"

text \<open>
  The \<^verbatim>\<open>except\<close> block of a failed dispatch: count the error, log it, and try to tell the
  shikigami manager, whatever that attempt raises.
\<close>

definition send_failed :: "slack_client \<Rightarrow> tally \<Rightarrow> exn \<Rightarrow> tally m" where
  "send_failed sc t e =
     bnd (app_log ERROR (''[SurgeryNotify ERROR] send failed: '' @ exn_str e)) (\<lambda>_.
     bnd (catch_all
            (dm_shikigami_manager sc ('':rotating_light: Surgery notify send failed: '' @ exn_str e))
            (\<lambda>_. ret ())) (\<lambda>_.
     ret (t\<lparr>errors := errors t + 1\<rparr>)))"

definition reason_flags :: "status_row \<Rightarrow> string \<Rightarrow> string list" where
  "reason_flags status day_key =
     (if status_get status ''euthanized'' \<noteq> 0 then [''euthanized=1''] else [])
       @ (if status_get status day_key \<noteq> 0 then [day_key @ ''=1''] else [])"

definition skip_reason :: "status_row \<Rightarrow> string \<Rightarrow> string" where
  "skip_reason status day_key =
     (if reason_flags status day_key \<noteq> [] then join '' and '' (reason_flags status day_key)
      else ''unknown_reason'')"

text \<open>
  One round of the loop over the fetched surgeries. It raises only before it has changed a
  counter (when the status fetch raises), so the tally it returns is the whole effect of
  the round on the view's locals.
\<close>

definition surgery_notification_entry ::
  "slack_client \<Rightarrow> lib \<Rightarrow> store \<Rightarrow> bool \<Rightarrow> int \<Rightarrow> entry \<Rightarrow> tally \<Rightarrow> tally m" where
  "surgery_notification_entry sc lb db force today entry t =
     bnd (ext (fetch_statuses db entry)) (\<lambda>statuses.
       case statuses of
         [] \<Rightarrow>
           bnd (app_log INFO (''[SurgeryNotify SKIP] No SurgeryStatus for animal_id=''
                  @ show_int (animal_id entry) @ '' surgery_id='' @ show_int (surgery_id entry)
                  @ ''; skipping.'')) (\<lambda>_.
           ret (t\<lparr>notes := notes t @ [''skip: no_status (animal_id='' @ show_int (animal_id entry) @ '')''],
                   skipped := skipped t + 1\<rparr>))
       | status # older \<Rightarrow>
           if today - surgery_date entry \<notin> {1, 2, 3} then
             bnd (app_log INFO (''[SurgeryNotify SKIP] delta_days=''
                    @ show_int (today - surgery_date entry)
                    @ '' animal_id='' @ show_int (animal_id entry))) (\<lambda>_.
             ret (t\<lparr>notes := notes t @ [''skip: delta_days='' @ show_int (today - surgery_date entry)
                                          @ '' (animal_id='' @ show_int (animal_id entry) @ '')''],
                     skipped := skipped t + 1\<rparr>))
           else
             (case num_to_word (today - surgery_date entry) of
                None \<Rightarrow> throw (OtherException ''KeyError'')
              | Some word \<Rightarrow>
                  if should_send force status (''day_'' @ word) then
                    try_except_else (dispatch sc lb entry)
                      (send_failed sc t)
                      (\<lambda>_. ret (t\<lparr>sent := sent t + 1,
                                   notes := notes t @ [''sent: animal_id='' @ show_int (animal_id entry)
                                     @ '' day='' @ show_int (today - surgery_date entry)
                                     @ (if force then '' (forced)'' else [])]\<rparr>))
                  else
                    bnd (app_log INFO (''[SurgeryNotify SKIP] animal_id=''
                           @ show_int (animal_id entry) @ '' day=''
                           @ show_int (today - surgery_date entry)
                           @ '' reason='' @ skip_reason status (''day_'' @ word))) (\<lambda>_.
                    ret (t\<lparr>notes := notes t @ [''skip: '' @ skip_reason status (''day_'' @ word)
                                                 @ '' (animal_id='' @ show_int (animal_id entry) @ '')''],
                            skipped := skipped t + 1\<rparr>))))"

text \<open>
  The \<^verbatim>\<open>for\<close> loop. The counters are locals of the view and keep their values when a round
  raises, so the loop returns the tally reached together with the exception, if any.
\<close>

fun surgery_notification_loop ::
  "slack_client \<Rightarrow> lib \<Rightarrow> store \<Rightarrow> bool \<Rightarrow> int \<Rightarrow> entry list \<Rightarrow> tally \<Rightarrow> state
     \<Rightarrow> ((exn option \<times> tally) \<times> state) option" where
  "surgery_notification_loop sc lb db force today [] t s = Some ((None, t), s)"
| "surgery_notification_loop sc lb db force today (entry # rest) t s =
     (case surgery_notification_entry sc lb db force today entry t s of
        None \<Rightarrow> None
      | Some (Inl e, s') \<Rightarrow> Some ((Some e, t), s')
      | Some (Inr t', s') \<Rightarrow> surgery_notification_loop sc lb db force today rest t' s')"

definition restriction :: "lib \<Rightarrow> int \<Rightarrow> string" where
  "restriction lb today =
     ''surgery_outcome = '' @ [CHR 0x22] @ ''Survival'' @ [CHR 0x22] @ '' and date < '' @ [CHR 0x22]
       @ date_str lb today @ [CHR 0x22] @ '' and date > '' @ [CHR 0x22] @ date_str lb (today - 4)
       @ [CHR 0x22]"

text \<open>The \<^verbatim>\<open>try\<close> block of the sweep: open the tables, fetch the surgeries, run the loop.\<close>

definition surgery_notification_try ::
  "slack_client \<Rightarrow> lib \<Rightarrow> store \<Rightarrow> bool \<Rightarrow> int \<Rightarrow> tally \<Rightarrow> state
     \<Rightarrow> ((exn option \<times> tally) \<times> state) option" where
  "surgery_notification_try sc lb db force today t s =
     (case create_virtual_module db ''experiment'' ''pipeline_experiment'' of
        Inl e \<Rightarrow> Some ((Some e, t), s)
      | Inr _ \<Rightarrow>
          (case create_virtual_module db ''pipeline_notification'' ''pipeline_notification'' of
             Inl e \<Rightarrow> Some ((Some e, t), s)
           | Inr _ \<Rightarrow>
               (case fetch_surgeries db (restriction lb today) of
                  Inl e \<Rightarrow> Some ((Some e, t), s)
                | Inr surgeries \<Rightarrow> surgery_notification_loop sc lb db force today surgeries t s)))"

text \<open>
  The outer \<^verbatim>\<open>except\<close> block: count the error, log it, and try the escalation notices (feed,
  then manager), whatever they raise.
\<close>

definition job_escalation :: "slack_client \<Rightarrow> exn \<Rightarrow> unit m" where
  "job_escalation sc e =
     catch_all
       (bnd (send_to_shikigami_feed sc
               ('':rotating_light: Surgery notification job failed: '' @ exn_str e) True) (\<lambda>_.
        dm_shikigami_manager sc
          ('':rotating_light: Surgery notification job failed: '' @ exn_str e)))
       (\<lambda>_. ret ())"

definition job_failed :: "slack_client \<Rightarrow> tally \<Rightarrow> exn \<Rightarrow> tally m" where
  "job_failed sc t e =
     bnd (app_log ERROR (''Surgery notification job failed: '' @ exn_str e)) (\<lambda>_.
     bnd (job_escalation sc e) (\<lambda>_.
     ret (t\<lparr>errors := errors t + 1\<rparr>)))"

definition summary_line :: "slack_client \<Rightarrow> tally \<Rightarrow> string" where
  "summary_line sc t =
     ''[SurgeryNotify SUMMARY] sent='' @ show_nat (sent t) @ '' skipped='' @ show_nat (skipped t)
       @ '' errors='' @ show_nat (errors t)
       @ '' dry_run='' @ show_bool (notify_dry_run (env sc))"

definition summary_of :: "slack_client \<Rightarrow> lib \<Rightarrow> bool \<Rightarrow> int \<Rightarrow> tally \<Rightarrow> summary" where
  "summary_of sc lb force today t =
     \<lparr>sum_status = ''ok'', sum_date = date_str lb today,
      sum_dry_run = notify_dry_run (env sc), sum_sent = sent t, sum_skipped = skipped t,
      sum_errors = errors t, sum_notes = notes t, sum_forced = force\<rparr>"

text \<open>The wiring test of \<^verbatim>\<open>?test=1\<close>.\<close>

definition test_msg :: string where
  "test_msg = ''[test] surgery notification logger check''"

definition surgery_notification_test :: "slack_client \<Rightarrow> response m" where
  "surgery_notification_test sc =
     bnd (app_log INFO (''[SurgeryNotify TEST] dry_run='' @ show_bool (notify_dry_run (env sc))
            @ '' -> '' @ test_msg)) (\<lambda>_.
     try_except_else
       (bnd (send_to_surgery_channel sc test_msg True) (\<lambda>_.
        bnd (dm_surgery_manager sc test_msg) (\<lambda>_.
        send_to_shikigami_feed sc (''[surgery] '' @ test_msg) False)))
       (\<lambda>e. bnd (app_log ERROR (''[SurgeryNotify TEST] failed: '' @ exn_str e)) (\<lambda>_.
             bnd (catch_all
                    (dm_shikigami_manager sc ('':warning: Surgery notify test failed: '' @ exn_str e))
                    (\<lambda>_. ret ())) (\<lambda>_.
             ret (TestError (exn_str e)))))
       (\<lambda>_. ret (TestOk (notify_dry_run (env sc)) test_msg)))"

text \<open>
  The view, after the parsing of the request: \<open>force\<close> and \<open>run_test\<close> are the two
  query flags, \<open>today\<close> is the day of the run.
\<close>

definition surgery_notification ::
  "slack_client \<Rightarrow> lib \<Rightarrow> store \<Rightarrow> bool \<Rightarrow> bool \<Rightarrow> int \<Rightarrow> response m" where
  "surgery_notification sc lb db force run_test today =
     bnd (slack_client_init sc) (\<lambda>_.
       if run_test then surgery_notification_test sc
       else (\<lambda>s.
         case surgery_notification_try sc lb db force today
                \<lparr>sent = 0, skipped = 0, errors = 0, notes = []\<rparr> s of
           None \<Rightarrow> None
         | Some ((raised, t), s') \<Rightarrow>
             bnd (case raised of None \<Rightarrow> ret t | Some e \<Rightarrow> job_failed sc t e) (\<lambda>t'.
             bnd (app_log INFO (summary_line sc t')) (\<lambda>_.
             ret (Summary (summary_of sc lb force today t')))) s'))"

section \<open>Notions used by the properties\<close>

text \<open>A computation returns (with a value or an exception) from every state.\<close>

definition returns :: "'a m \<Rightarrow> bool" where
  "returns f = (\<forall>s. f s \<noteq> None)"

text \<open>Every directory scan of the service comes to an end: the cursor chain is finite.\<close>

definition pagination_ends :: "webclient \<Rightarrow> bool" where
  "pagination_ends wc =
     (\<forall>name s. scan_channels wc name None s \<noteq> None \<and> scan_users wc name None s \<noteq> None)"

text \<open>
  The number of channel scans started: a scan starts with the one \<^verbatim>\<open>conversations_list\<close> call
  without a cursor; every later page is asked for with the cursor of the page before.
\<close>

definition scan_starts :: "api_call list \<Rightarrow> nat" where
  "scan_starts cs = length (filter (\<lambda>c. c = ConversationsList None) cs)"

text \<open>
  What an \<^verbatim>\<open>lru_cache\<close> table holds after any sequence of calls: under a literal identifier, the
  identifier itself.
\<close>

definition literal_cached ::
  "(string option \<Rightarrow> bool) \<Rightarrow> (string option \<times> string option) list \<Rightarrow> bool" where
  "literal_cached lit c = (\<forall>kv \<in> set c. lit (fst kv) \<longrightarrow> snd kv = fst kv)"

definition user_literal :: "string option \<Rightarrow> bool" where
  "user_literal k = (case k of None \<Rightarrow> False | Some n \<Rightarrow> looks_like_id k \<and> startswith_U n)"

text \<open>
  \<open>uid\<close> is the identifier of a member that some page of the directory lists as not deleted
  and under the searched name; and a table whose identifiers for names are all of that kind.
\<close>

definition live_member_id :: "webclient \<Rightarrow> string \<Rightarrow> string \<Rightarrow> bool" where
  "live_member_id wc needle uid =
     (\<exists>cursor page u. users_list wc cursor = Inr page \<and> u \<in> set (members page)
        \<and> \<not> m_deleted u \<and> user_matches needle u \<and> m_id u = Some uid)"

definition scanned_ids_live :: "webclient \<Rightarrow> (string option \<times> string option) list \<Rightarrow> bool" where
  "scanned_ids_live wc c =
     (\<forall>kv \<in> set c. \<forall>n uid. fst kv = Some n \<and> snd kv = Some uid \<and> \<not> startswith_U n
        \<longrightarrow> live_member_id wc (lstrip CHR ''@'' n) uid)"

section \<open>Concrete configurations, services and records\<close>

definition env_dry :: slack_env where
  "env_dry = \<lparr>bot_token = ''xoxb'', notify_dry_run = True,
      shikigami_channel = Some ''C2'', shikigami_manager = None, shikigami_manager_dm = True,
      surgery_channel = Some ''C1'', surgery_manager = Some ''U1'', surgery_manager_dm = True\<rparr>"

definition wc_quiet :: webclient where
  "wc_quiet = \<lparr>conversations_list = (\<lambda>_. Inr \<lparr>channels = [], ch_next_cursor = None\<rparr>),
      users_list = (\<lambda>_. Inr \<lparr>members = [], u_next_cursor = None\<rparr>),
      conversations_open = (\<lambda>u. Inr (Some (''D'' @ u))),
      chat_postMessage = (\<lambda>ch tx. Inr (Some ''1.0''))\<rparr>"

definition s_init :: state where
  "s_init = \<lparr>logs = [], calls = [], channel_cache = [], user_cache = [], dm_cache = []\<rparr>"

definition lib0 :: lib where
  "lib0 = \<lparr>title = (\<lambda>s. s), url_for = (\<lambda>a s. ''http://lab/u''), date_str = show_int\<rparr>"

definition entry7 :: entry where
  "entry7 = \<lparr>animal_id = 7, surgery_id = 1, surgery_date = 9, username = ''bob'', mouse_room = None\<rparr>"

definition tally0 :: tally where
  "tally0 = \<lparr>sent = 0, skipped = 0, errors = 0, notes = []\<rparr>"

definition env_live :: slack_env where
  "env_live = \<lparr>bot_token = ''xoxb'', notify_dry_run = False,
      shikigami_channel = Some ''C2'', shikigami_manager = None, shikigami_manager_dm = True,
      surgery_channel = Some ''C1'', surgery_manager = Some ''U1'', surgery_manager_dm = True\<rparr>"

definition wc_fail :: webclient where
  "wc_fail = \<lparr>conversations_list = (\<lambda>_. Inr \<lparr>channels = [], ch_next_cursor = None\<rparr>),
      users_list = (\<lambda>_. Inr \<lparr>members = [], u_next_cursor = None\<rparr>),
      conversations_open = (\<lambda>u. Inr (Some (''D'' @ u))),
      chat_postMessage = (\<lambda>ch tx. if ch = ''C1'' then Inl (SlackApiError ''failed'' (Some ''channel_not_found''))
                                  else Inr (Some ''1.0''))\<rparr>"

definition status_clear :: status_row where
  "status_clear = [''euthanized'' \<mapsto> 0, ''day_one'' \<mapsto> 0, ''day_two'' \<mapsto> 0, ''day_three'' \<mapsto> 0]"

definition store_of :: "status_row list \<Rightarrow> store" where
  "store_of rows = \<lparr>create_virtual_module = (\<lambda>_ _. Inr ()), fetch_surgeries = (\<lambda>_. Inr [entry7]),
      fetch_statuses = (\<lambda>_. Inr rows)\<rparr>"

definition store_down :: store where
  "store_down = \<lparr>create_virtual_module = (\<lambda>_ _. Inr ()),
      fetch_surgeries = (\<lambda>_. Inl (OtherException ''LostConnection'')),
      fetch_statuses = (\<lambda>_. Inr [])\<rparr>"

definition wc_dir :: webclient where
  "wc_dir = \<lparr>conversations_list = (\<lambda>cursor.
        if cursor = None
        then Inr \<lparr>channels = [\<lparr>ch_name = Some ''general'', ch_id = Some ''C7''\<rparr>],
                  ch_next_cursor = Some ''p2''\<rparr>
        else Inr \<lparr>channels = [\<lparr>ch_name = Some ''surgery'', ch_id = Some ''C9''\<rparr>],
                  ch_next_cursor = Some []\<rparr>),
      users_list = (\<lambda>cursor. Inr \<lparr>members =
          [\<lparr>m_deleted = True, m_name = Some ''bob'', m_profile = None, m_id = Some ''UDEAD''\<rparr>,
           \<lparr>m_deleted = False, m_name = Some ''robert'',
            m_profile = Some \<lparr>display_name = Some ''bob'', real_name = None\<rparr>,
            m_id = Some ''U2''\<rparr>],
          u_next_cursor = None\<rparr>),
      conversations_open = (\<lambda>u. Inr (Some (''D'' @ u))),
      chat_postMessage = (\<lambda>ch tx. Inr (Some ''1.0''))\<rparr>"

definition env_named :: slack_env where
  "env_named = \<lparr>bot_token = ''xoxb'', notify_dry_run = False,
      shikigami_channel = Some ''#shikigami'', shikigami_manager = None, shikigami_manager_dm = True,
      surgery_channel = Some ''#surgery'', surgery_manager = None, surgery_manager_dm = True\<rparr>"

definition wc_endless :: webclient where
  "wc_endless = \<lparr>conversations_list = (\<lambda>_. Inr \<lparr>channels = [], ch_next_cursor = Some ''more''\<rparr>),
      users_list = (\<lambda>_. Inr \<lparr>members = [], u_next_cursor = Some ''more''\<rparr>),
      conversations_open = (\<lambda>u. Inr (Some (''D'' @ u))),
      chat_postMessage = (\<lambda>ch tx. Inr (Some ''1.0''))\<rparr>"

definition wc_raise :: webclient where
  "wc_raise = \<lparr>conversations_list = (\<lambda>_. Inl (OtherException ''timed out'')),
      users_list = (\<lambda>_. Inr \<lparr>members = [], u_next_cursor = None\<rparr>),
      conversations_open = (\<lambda>u. Inr (Some (''D'' @ u))),
      chat_postMessage = (\<lambda>ch tx. Inr (Some ''1.0''))\<rparr>"

section \<open>The message sender\<close>

text \<open>
  C4. Dry-run invariant: a send with a non-empty destination and a non-empty text under
  the dry-run flag returns normally, issues no network call (so no \<^verbatim>\<open>chat_postMessage\<close>), and
  appends exactly the PLAN line followed by the DRY-RUN line to the log.
\<close>

theorem post_dry_run:
  assumes "truthy channel" and "truthy text" and "notify_dry_run (env sc)"
  shows "\<exists>s'. post sc channel text target_label s = Some (Inr (), s')
           \<and> calls s' = calls s
           \<and> logs s' = logs s @
               [(INFO, emit_line True ''PLAN'' target_label (py_or text []) channel None),
                (INFO, emit_line True ''DRY-RUN'' target_label (py_or text []) channel None)]"
  using assms by (simp add: post_def bnd_def emit_log_def app_log_def)

theorem post_dry_run_witness:
  "truthy (Some ''C1'') \<and> truthy (Some ''hello'')
     \<and> notify_dry_run (env \<lparr>env = env_dry, client = wc_quiet\<rparr>)
     \<and> (\<exists>s'. post \<lparr>env = env_dry, client = wc_quiet\<rparr> (Some ''C1'') (Some ''hello'') ''#surgery'' s_init
            = Some (Inr (), s')
         \<and> calls s' = []
         \<and> map snd (logs s') =
             [''[Slack PLAN] target=#surgery resolved=C1 dry_run=true text=hello'',
              ''[Slack DRY-RUN] target=#surgery resolved=C1 dry_run=true text=hello''])"
  using post_dry_run [of "Some ''C1''" "Some ''hello''" "\<lparr>env = env_dry, client = wc_quiet\<rparr>" "''#surgery''" s_init]
  by (auto simp: env_dry_def s_init_def emit_line_def)

section \<open>The reminder decision\<close>

lemmas client_defs =
  send_to_surgery_channel_def send_to_shikigami_feed_def dm_surgery_manager_def
  dm_shikigami_manager_def dm_user_if_enabled_def post_def resolve_channel_id_def
  resolve_channel_id_body_def resolve_user_id_def resolve_user_id_body_def dm_channel_for_def
  dm_channel_for_body_def emit_log_def app_log_def net_def bnd_def ret_def throw_def
  catch_api_def catch_all_def lru_hit_def lru_store_def

lemmas world_defs =
  env_dry_def env_live_def wc_quiet_def wc_fail_def s_init_def lib0_def entry7_def tally0_def
  store_of_def

lemma dispatch_dry:
  "\<exists>s'. dispatch \<lparr>env = env_dry, client = wc_quiet\<rparr> lib0 entry7 s_init = Some (Inr (), s')"
  by (simp add: dispatch_def client_defs world_defs)

lemma show_nat_digit: "n < 10 \<Longrightarrow> show_nat n = [digit_char n]"
  by (simp add: show_nat.simps)

lemma show_int_digit: "0 \<le> i \<Longrightarrow> i < 10 \<Longrightarrow> show_int i = [digit_char (nat i)]"
  by (simp add: show_int_def show_nat_digit)

lemma show_small: "show_int 1 = ''1''" "show_int 2 = ''2''" "show_int 3 = ''3''" "show_int 5 = ''5''" "show_int 7 = ''7''" "show_int 9 = ''9''"
  by (simp_all add: show_int_digit digit_char_def)

lemma num_to_word_Some:
  "num_to_word d = Some w \<Longrightarrow> d \<in> {1, 2, 3}"
  by (auto simp: num_to_word_def split: if_splits)

lemma send_failed_result:
  "send_failed sc t e s = Some (r, s') \<Longrightarrow> r = Inr (t\<lparr>errors := errors t + 1\<rparr>)"
  by (auto simp: send_failed_def bnd_def app_log_def catch_all_def ret_def
           split: option.splits sum.splits prod.splits)




text \<open>
  C5 (as the code has it). The note of a dispatched record is
  \<^verbatim>\<open>sent: animal_id=<id> day=<n>\<close>, followed by \<^verbatim>\<open> (forced)\<close> exactly when the \<open>force\<close> flag of the
  request is set, whether or not the flags alone would have let the reminder through.
\<close>

theorem sent_note_forced_suffix:
  assumes "fetch_statuses db entry = Inr (status # older)"
    and "num_to_word (today - surgery_date entry) = Some word"
    and "should_send force status (''day_'' @ word)"
    and "dispatch sc lb entry s = Some (Inr (), s')"
  shows "surgery_notification_entry sc lb db force today entry t s =
      Some (Inr (t\<lparr>sent := sent t + 1,
                    notes := notes t @ [''sent: animal_id='' @ show_int (animal_id entry)
                      @ '' day='' @ show_int (today - surgery_date entry)
                      @ (if force then '' (forced)'' else [])]\<rparr>), s')"
  using assms num_to_word_Some [OF assms(2)]
  by (simp add: surgery_notification_entry_def bnd_def ext_def try_except_else_def ret_def)

theorem sent_note_forced_suffix_witness:
  "fetch_statuses (store_of [status_clear]) entry7 = Inr [status_clear]
   \<and> num_to_word (10 - surgery_date entry7) = Some ''one''
   \<and> should_send False status_clear (''day_'' @ ''one'')
   \<and> map_option fst (dispatch \<lparr>env = env_dry, client = wc_quiet\<rparr> lib0 entry7 s_init) = Some (Inr ())
   \<and> map_option fst (surgery_notification_entry \<lparr>env = env_dry, client = wc_quiet\<rparr> lib0
        (store_of [status_clear]) False 10 entry7 tally0 s_init) =
       Some (Inr \<lparr>sent = 1, skipped = 0, errors = 0, notes = [''sent: animal_id=7 day=1'']\<rparr>)"
proof -
  obtain s' where d: "dispatch \<lparr>env = env_dry, client = wc_quiet\<rparr> lib0 entry7 s_init = Some (Inr (), s')"
    using dispatch_dry by blast
  have a: "fetch_statuses (store_of [status_clear]) entry7 = Inr [status_clear]"
    by (simp add: store_of_def)
  have b: "num_to_word (10 - surgery_date entry7) = Some ''one''"
    by (simp add: entry7_def num_to_word_def)
  have c: "should_send False status_clear (''day_'' @ ''one'')"
    by (simp add: should_send_def status_get_def status_clear_def)
  from sent_note_forced_suffix [OF a b c d, of tally0] a b c d show ?thesis
    by (simp add: tally0_def entry7_def show_small)
qed

theorem forced_suffix_counterexample:
  "should_send False status_clear ''day_one''
   \<and> fetch_statuses (store_of [status_clear]) entry7 = Inr [status_clear]
   \<and> 10 - surgery_date entry7 = 1
   \<and> map_option fst (surgery_notification_entry \<lparr>env = env_dry, client = wc_quiet\<rparr> lib0
        (store_of [status_clear]) True 10 entry7 tally0 s_init) =
       Some (Inr \<lparr>sent = 1, skipped = 0, errors = 0, notes = [''sent: animal_id=7 day=1 (forced)'']\<rparr>)"
  by (simp add: surgery_notification_entry_def ext_def try_except_else_def dispatch_def
        num_to_word_def should_send_def status_get_def status_clear_def client_defs world_defs show_small)

text \<open>
  C6 (as the code has it). The snapshot check comes first. A record without any status
  snapshot is skipped with the note \<^verbatim>\<open>skip: no_status (animal_id=<id>)\<close>, whatever its elapsed
  days, inside the window or not. A record with at least one snapshot whose elapsed days are
  not 1, 2 or 3 is skipped with the note \<^verbatim>\<open>skip: delta_days=<n> (animal_id=<id>)\<close>, whatever
  the snapshot says. Either way \<open>skipped\<close> grows by one and only a log line is written.
\<close>

theorem out_of_window_skip:
  "(fetch_statuses db entry = Inr [] \<longrightarrow>
      surgery_notification_entry sc lb db force today entry t s =
        Some (Inr (t\<lparr>notes := notes t @ [''skip: no_status (animal_id=''
                          @ show_int (animal_id entry) @ '')''],
                      skipped := skipped t + 1\<rparr>),
              s\<lparr>logs := logs s @ [(INFO, ''[SurgeryNotify SKIP] No SurgeryStatus for animal_id=''
                       @ show_int (animal_id entry) @ '' surgery_id=''
                       @ show_int (surgery_id entry) @ ''; skipping.'')]\<rparr>))
   \<and> (\<forall>status older.
         fetch_statuses db entry = Inr (status # older)
           \<and> today - surgery_date entry \<notin> {1, 2, 3} \<longrightarrow>
         surgery_notification_entry sc lb db force today entry t s =
           Some (Inr (t\<lparr>notes := notes t @ [''skip: delta_days=''
                             @ show_int (today - surgery_date entry)
                             @ '' (animal_id='' @ show_int (animal_id entry) @ '')''],
                         skipped := skipped t + 1\<rparr>),
                 s\<lparr>logs := logs s @ [(INFO, ''[SurgeryNotify SKIP] delta_days=''
                          @ show_int (today - surgery_date entry)
                          @ '' animal_id='' @ show_int (animal_id entry))]\<rparr>))"
  by (simp add: surgery_notification_entry_def bnd_def ext_def app_log_def ret_def)

theorem out_of_window_skip_witness:
  "fetch_statuses (store_of []) entry7 = Inr []
   \<and> (10::int) - surgery_date entry7 \<in> {1, 2, 3}
   \<and> surgery_notification_entry \<lparr>env = env_dry, client = wc_quiet\<rparr> lib0 (store_of []) True 10
        entry7 tally0 s_init =
       Some (Inr \<lparr>sent = 0, skipped = 1, errors = 0, notes = [''skip: no_status (animal_id=7)'']\<rparr>,
             s_init\<lparr>logs := [(INFO,
               ''[SurgeryNotify SKIP] No SurgeryStatus for animal_id=7 surgery_id=1; skipping.'')]\<rparr>)
   \<and> fetch_statuses (store_of [status_clear]) entry7 = Inr [status_clear]
   \<and> (14::int) - surgery_date entry7 \<notin> {1, 2, 3}
   \<and> surgery_notification_entry \<lparr>env = env_dry, client = wc_quiet\<rparr> lib0 (store_of [status_clear])
        True 14 entry7 tally0 s_init =
       Some (Inr \<lparr>sent = 0, skipped = 1, errors = 0, notes = [''skip: delta_days=5 (animal_id=7)'']\<rparr>,
             s_init\<lparr>logs := [(INFO, ''[SurgeryNotify SKIP] delta_days=5 animal_id=7'')]\<rparr>)"
  using out_of_window_skip [of "store_of []" entry7 "\<lparr>env = env_dry, client = wc_quiet\<rparr>"
          lib0 True 10 tally0 s_init]
    out_of_window_skip [of "store_of [status_clear]" entry7 "\<lparr>env = env_dry, client = wc_quiet\<rparr>"
          lib0 True 14 tally0 s_init]
  by (simp add: entry7_def store_of_def tally0_def s_init_def show_small)

theorem out_of_window_no_status_counterexample:
  "(14::int) - surgery_date entry7 = 5
   \<and> fetch_statuses (store_of []) entry7 = Inr []
   \<and> surgery_notification_entry \<lparr>env = env_dry, client = wc_quiet\<rparr> lib0 (store_of []) False 14
        entry7 tally0 s_init =
       Some (Inr \<lparr>sent = 0, skipped = 1, errors = 0, notes = [''skip: no_status (animal_id=7)'']\<rparr>,
             s_init\<lparr>logs := [(INFO,
               ''[SurgeryNotify SKIP] No SurgeryStatus for animal_id=7 surgery_id=1; skipping.'')]\<rparr>)"
  by (simp add: surgery_notification_entry_def bnd_def ext_def app_log_def ret_def
        entry7_def store_of_def tally0_def s_init_def show_small)

text \<open>
  C7. The \<^verbatim>\<open>unknown_reason\<close> branch is unreachable: whenever the decision is not to send, one
  of the two flags is set, so the list of reasons is not empty and the reason is their join;
  no round ever appends a note \<^verbatim>\<open>skip: unknown_reason\<close>.
\<close>

theorem unknown_reason_unreachable:
  assumes "surgery_notification_entry sc lb db force today entry t s = Some (Inr t', s')"
  shows "(notes t' = notes t
           \<or> (\<exists>n. notes t' = notes t @ [n] \<and> \<not> prefix ''skip: unknown_reason'' n))
       \<and> (\<forall>status day_key. \<not> should_send force status day_key \<longrightarrow>
             reason_flags status day_key \<noteq> []
               \<and> skip_reason status day_key = join '' and '' (reason_flags status day_key))"
proof -
  have flags: "reason_flags status day_key \<noteq> []" if "\<not> should_send force status day_key"
    for status day_key
    using that by (auto simp: should_send_def reason_flags_def)
  have np: "\<not> prefix ''skip: unknown_reason'' (''skip: '' @ skip_reason status (''day_'' @ w) @ rest)"
    if "\<not> should_send force status (''day_'' @ w)" for status w rest
    using that by (auto simp: should_send_def skip_reason_def reason_flags_def)
  have "notes t' = notes t
           \<or> (\<exists>n. notes t' = notes t @ [n] \<and> \<not> prefix ''skip: unknown_reason'' n)"
    using assms np
    by (auto simp: surgery_notification_entry_def bnd_def ext_def app_log_def ret_def throw_def
          try_except_else_def
        split: sum.splits list.splits if_splits option.splits prod.splits
        dest!: send_failed_result)
  then show ?thesis
    using flags by (simp add: skip_reason_def)
qed

theorem unknown_reason_unreachable_witness:
  "surgery_notification_entry \<lparr>env = env_live, client = wc_quiet\<rparr> lib0
        (store_of [[''euthanized'' \<mapsto> 1, ''day_two'' \<mapsto> 1]]) False 11 entry7 tally0 s_init =
       Some (Inr \<lparr>sent = 0, skipped = 1, errors = 0,
                  notes = [''skip: euthanized=1 and day_two=1 (animal_id=7)'']\<rparr>,
             s_init\<lparr>logs := [(INFO,
               ''[SurgeryNotify SKIP] animal_id=7 day=2 reason=euthanized=1 and day_two=1'')]\<rparr>)
   \<and> \<not> prefix ''skip: unknown_reason'' ''skip: euthanized=1 and day_two=1 (animal_id=7)''
   \<and> reason_flags [''euthanized'' \<mapsto> 1, ''day_two'' \<mapsto> 1] ''day_two'' = [''euthanized=1'', ''day_two=1'']"
proof -
  have run: "surgery_notification_entry \<lparr>env = env_live, client = wc_quiet\<rparr> lib0
        (store_of [[''euthanized'' \<mapsto> 1, ''day_two'' \<mapsto> 1]]) False 11 entry7 tally0 s_init =
       Some (Inr \<lparr>sent = 0, skipped = 1, errors = 0,
                  notes = [''skip: euthanized=1 and day_two=1 (animal_id=7)'']\<rparr>,
             s_init\<lparr>logs := [(INFO,
               ''[SurgeryNotify SKIP] animal_id=7 day=2 reason=euthanized=1 and day_two=1'')]\<rparr>)"
    by (simp add: surgery_notification_entry_def bnd_def ext_def app_log_def ret_def world_defs
          num_to_word_def should_send_def status_get_def status_clear_def skip_reason_def reason_flags_def show_small)
  from unknown_reason_unreachable [OF run] run show ?thesis
    by (simp add: tally0_def reason_flags_def status_get_def status_clear_def)
qed

section \<open>Every operation returns when the directory scans do\<close>

lemma returns_ret [simp]: "returns (ret x)"
  by (simp add: returns_def ret_def)

lemma returns_throw [simp]: "returns (throw e)"
  by (simp add: returns_def throw_def)

lemma returns_app_log [simp]: "returns (app_log lv line)"
  by (simp add: returns_def app_log_def)

lemma returns_net [simp]: "returns (net c a)"
  by (simp add: returns_def net_def)

lemma returns_ext [simp]: "returns (ext a)"
  by (simp add: returns_def ext_def)

lemma returns_bnd: "returns f \<Longrightarrow> (\<And>x. returns (g x)) \<Longrightarrow> returns (bnd f g)"
  by (auto simp: returns_def bnd_def split: option.splits sum.splits prod.splits)

lemma returns_catch_api: "returns f \<Longrightarrow> (\<And>e. returns (h e)) \<Longrightarrow> returns (catch_api f h)"
  by (auto simp: returns_def catch_api_def split: option.splits sum.splits prod.splits exn.splits)

lemma returns_catch_all: "returns f \<Longrightarrow> (\<And>e. returns (h e)) \<Longrightarrow> returns (catch_all f h)"
  by (auto simp: returns_def catch_all_def split: option.splits sum.splits prod.splits)

lemma returns_try_except_else:
  "returns f \<Longrightarrow> (\<And>e. returns (h e)) \<Longrightarrow> (\<And>x. returns (g x)) \<Longrightarrow> returns (try_except_else f h g)"
  by (auto simp: returns_def try_except_else_def split: option.splits sum.splits prod.splits)

lemma returns_emit_log [simp]: "returns (emit_log sc phase target text resolved extra)"
  by (simp add: emit_log_def)

lemma returns_if: "returns f \<Longrightarrow> returns g \<Longrightarrow> returns (if b then f else g)"
  by simp

lemmas returns_intros = returns_bnd returns_catch_api returns_catch_all returns_try_except_else

lemma returns_post: "returns (post sc channel text target_label)"
  unfolding post_def by (intro returns_intros returns_if returns_emit_log returns_net returns_throw)

lemma returns_resolve_channel_id_body:
  "pagination_ends (client sc) \<Longrightarrow> returns (resolve_channel_id_body sc k)"
  unfolding resolve_channel_id_body_def
  by (auto simp: pagination_ends_def returns_def[of "scan_channels _ _ _"] split: option.splits
           intro!: returns_intros)

lemma returns_resolve_channel_id:
  "pagination_ends (client sc) \<Longrightarrow> returns (resolve_channel_id sc k)"
proof -
  assume "pagination_ends (client sc)"
  then have b: "\<And>s. resolve_channel_id_body sc k s \<noteq> None"
    using returns_resolve_channel_id_body [of sc k] by (simp add: returns_def)
  show ?thesis
    by (simp add: returns_def resolve_channel_id_def b split: option.splits sum.splits prod.splits)
qed

lemma returns_resolve_user_id_body:
  "pagination_ends (client sc) \<Longrightarrow> returns (resolve_user_id_body sc k)"
  unfolding resolve_user_id_body_def
  by (auto simp: pagination_ends_def returns_def[of "scan_users _ _ _"] split: option.splits
           intro!: returns_intros)

lemma returns_resolve_user_id:
  "pagination_ends (client sc) \<Longrightarrow> returns (resolve_user_id sc k)"
proof -
  assume "pagination_ends (client sc)"
  then have b: "\<And>s. resolve_user_id_body sc k s \<noteq> None"
    using returns_resolve_user_id_body [of sc k] by (simp add: returns_def)
  show ?thesis
    by (simp add: returns_def resolve_user_id_def b split: option.splits sum.splits prod.splits)
qed

lemma returns_dm_channel_for: "returns (dm_channel_for sc u)"
proof -
  have "returns (dm_channel_for_body sc u)"
    unfolding dm_channel_for_body_def by (intro returns_intros returns_if) simp_all
  then have b: "\<And>s. dm_channel_for_body sc u s \<noteq> None"
    by (simp add: returns_def)
  show ?thesis
    by (simp add: returns_def dm_channel_for_def b split: option.splits sum.splits prod.splits)
qed

lemma returns_send_to_shikigami_feed:
  "pagination_ends (client sc) \<Longrightarrow> returns (send_to_shikigami_feed sc text ping)"
  unfolding send_to_shikigami_feed_def
  by (intro returns_intros returns_if returns_post returns_resolve_channel_id) simp_all

lemma returns_send_to_surgery_channel:
  "pagination_ends (client sc) \<Longrightarrow> returns (send_to_surgery_channel sc text ping)"
  unfolding send_to_surgery_channel_def
  by (intro returns_intros returns_if returns_post returns_resolve_channel_id) simp_all

lemma returns_dm_user_if_enabled:
  "pagination_ends (client sc) \<Longrightarrow> returns (dm_user_if_enabled sc enabled who_label who_value text)"
  unfolding dm_user_if_enabled_def
  by (intro returns_intros returns_if returns_post returns_resolve_user_id returns_dm_channel_for)
     simp_all

lemma returns_dm_surgery_manager:
  "pagination_ends (client sc) \<Longrightarrow> returns (dm_surgery_manager sc text)"
  by (simp add: dm_surgery_manager_def returns_dm_user_if_enabled)

lemma returns_dm_shikigami_manager:
  "pagination_ends (client sc) \<Longrightarrow> returns (dm_shikigami_manager sc text)"
  by (simp add: dm_shikigami_manager_def returns_dm_user_if_enabled)

lemma returns_dispatch: "pagination_ends (client sc) \<Longrightarrow> returns (dispatch sc lb entry)"
  unfolding dispatch_def
  by (intro returns_intros returns_send_to_surgery_channel returns_dm_surgery_manager
        returns_send_to_shikigami_feed)

lemma returns_send_failed: "pagination_ends (client sc) \<Longrightarrow> returns (send_failed sc t e)"
  unfolding send_failed_def
  by (intro returns_intros returns_dm_shikigami_manager) simp_all

lemma returns_job_escalation: "pagination_ends (client sc) \<Longrightarrow> returns (job_escalation sc e)"
  unfolding job_escalation_def
  by (intro returns_intros returns_dm_shikigami_manager returns_send_to_shikigami_feed) simp_all

lemma returns_case_list:
  "returns f \<Longrightarrow> (\<And>y ys. returns (g y ys)) \<Longrightarrow> returns (case xs of [] \<Rightarrow> f | y # ys \<Rightarrow> g y ys)"
  by (cases xs) simp_all

lemma returns_case_option:
  "returns f \<Longrightarrow> (\<And>y. returns (g y)) \<Longrightarrow> returns (case x of None \<Rightarrow> f | Some y \<Rightarrow> g y)"
  by (cases x) simp_all

lemma returns_entry:
  assumes "pagination_ends (client sc)"
  shows "returns (surgery_notification_entry sc lb db force today entry t)"
  unfolding surgery_notification_entry_def
  by (intro returns_intros returns_case_list returns_case_option returns_if returns_ext
        returns_app_log returns_ret returns_throw returns_dispatch returns_send_failed assms)

lemma entry_returns:
  assumes "pagination_ends (client sc)"
  shows "surgery_notification_entry sc lb db force today entry t s \<noteq> None"
  using returns_entry [OF assms] by (simp add: returns_def)

lemma loop_returns:
  "pagination_ends (client sc) \<Longrightarrow> surgery_notification_loop sc lb db force today es t s \<noteq> None"
proof (induction es arbitrary: t s)
  case Nil
  then show ?case by simp
next
  case (Cons entry rest)
  from Cons.prems have "surgery_notification_entry sc lb db force today entry t s \<noteq> None"
    by (rule entry_returns)
  with Cons show ?case
    by (auto split: option.splits sum.splits prod.splits)
qed


lemma catch_all_unit_returns:
  assumes "returns f"
  shows "\<exists>s'. catch_all f (\<lambda>_. ret ()) s = Some (Inr (), s')"
proof -
  from assms have "f s \<noteq> None"
    by (simp add: returns_def)
  then obtain r s' where "f s = Some (r, s')"
    by (cases "f s") auto
  then show ?thesis
    by (cases r) (simp_all add: catch_all_def ret_def)
qed

lemma pagination_ends_wc_fail: "pagination_ends wc_fail"
  unfolding pagination_ends_def
  by (subst scan_channels.simps, subst scan_users.simps) (simp add: wc_fail_def or_none_def)

lemma job_escalation_result:
  assumes "pagination_ends (client sc)"
  shows "\<exists>s'. job_escalation sc e s = Some (Inr (), s')"
proof -
  have "returns (bnd (send_to_shikigami_feed sc
               ('':rotating_light: Surgery notification job failed: '' @ exn_str e) True) (\<lambda>_.
        dm_shikigami_manager sc
          ('':rotating_light: Surgery notification job failed: '' @ exn_str e)))"
    by (intro returns_intros returns_dm_shikigami_manager returns_send_to_shikigami_feed assms)
  from catch_all_unit_returns [OF this] show ?thesis
    by (simp add: job_escalation_def)
qed

lemma slack_client_init_result:
  "\<exists>s0. slack_client_init sc s = Some (Inr (), s0)"
  by (simp add: slack_client_init_def bnd_def app_log_def ret_def)

lemma try_returns:
  assumes "pagination_ends (client sc)"
  shows "\<exists>raised t' s'. surgery_notification_try sc lb db force today t s = Some ((raised, t'), s')"
proof -
  have "surgery_notification_try sc lb db force today t s \<noteq> None"
    using loop_returns [OF assms]
    by (simp add: surgery_notification_try_def split: sum.splits)
  then show ?thesis
    by (cases "surgery_notification_try sc lb db force today t s") auto
qed

section \<open>Failures of a delivery and of the sweep\<close>

text \<open>
  C1 (as the code has it). The three deliveries of a due record share one \<^verbatim>\<open>try\<close> block:
  when the delivery to the surgery channel raises, the manager DM and the feed copy are not
  run for that record. What follows the failed delivery is the error line in the log and one
  attempt to tell the shikigami manager. That attempt may scan the user directory, and the
  scan has no bound: if it never returns, neither does the loop. When it returns, whatever
  it raised is discarded, the record counts as one error, and the loop goes on with the next
  record. It does return whenever the directory scans of the service end.
\<close>

theorem first_delivery_failure:
  assumes "fetch_statuses db entry = Inr (status # older)"
    and "num_to_word (today - surgery_date entry) = Some word"
    and "should_send force status (''day_'' @ word)"
    and "send_to_surgery_channel sc (''Reminder: '' @ base_msg lb entry) True s = Some (Inl e, s1)"
  shows "surgery_notification_loop sc lb db force today (entry # rest) t s =
           (case dm_shikigami_manager sc
                   ('':rotating_light: Surgery notify send failed: '' @ exn_str e)
                   (s1\<lparr>logs := logs s1 @ [(ERROR, ''[SurgeryNotify ERROR] send failed: '' @ exn_str e)]\<rparr>) of
              None \<Rightarrow> None
            | Some (r, s2) \<Rightarrow>
                surgery_notification_loop sc lb db force today rest (t\<lparr>errors := errors t + 1\<rparr>) s2)
       \<and> (pagination_ends (client sc) \<longrightarrow>
            dm_shikigami_manager sc ('':rotating_light: Surgery notify send failed: '' @ exn_str e)
              (s1\<lparr>logs := logs s1 @ [(ERROR, ''[SurgeryNotify ERROR] send failed: '' @ exn_str e)]\<rparr>)
              \<noteq> None)"
proof -
  let ?s1' = "s1\<lparr>logs := logs s1 @ [(ERROR, ''[SurgeryNotify ERROR] send failed: '' @ exn_str e)]\<rparr>"
  let ?esc = "dm_shikigami_manager sc ('':rotating_light: Surgery notify send failed: '' @ exn_str e) ?s1'"
  have d: "dispatch sc lb entry s = Some (Inl e, s1)"
    using assms(4) by (simp add: dispatch_def bnd_def)
  have f: "send_failed sc t e s1 =
      (case ?esc of None \<Rightarrow> None | Some (r, s2) \<Rightarrow> Some (Inr (t\<lparr>errors := errors t + 1\<rparr>), s2))"
    by (simp add: send_failed_def bnd_def app_log_def ret_def catch_all_def
          split: option.splits sum.splits prod.splits)
  have en: "surgery_notification_entry sc lb db force today entry t s = send_failed sc t e s1"
    using assms(1-3) num_to_word_Some [OF assms(2)] d
    by (simp add: surgery_notification_entry_def bnd_def ext_def try_except_else_def)
  have loop: "surgery_notification_loop sc lb db force today (entry # rest) t s =
           (case ?esc of
              None \<Rightarrow> None
            | Some (r, s2) \<Rightarrow>
                surgery_notification_loop sc lb db force today rest (t\<lparr>errors := errors t + 1\<rparr>) s2)"
    by (simp add: en f split: option.splits prod.splits)
  have "pagination_ends (client sc) \<longrightarrow> ?esc \<noteq> None"
    using returns_dm_shikigami_manager [of sc] by (auto simp: returns_def)
  with loop show ?thesis by blast
qed

theorem first_delivery_failure_witness:
  "fetch_statuses (store_of [status_clear]) entry7 = Inr [status_clear]
   \<and> num_to_word (10 - surgery_date entry7) = Some ''one''
   \<and> should_send False status_clear (''day_'' @ ''one'')
   \<and> map_option fst (send_to_surgery_channel \<lparr>env = env_live, client = wc_fail\<rparr>
         (''Reminder: '' @ base_msg lib0 entry7) True s_init)
       = Some (Inl (SlackApiError ''failed'' (Some ''channel_not_found'')))
   \<and> pagination_ends (client \<lparr>env = env_live, client = wc_fail\<rparr>)
   \<and> map_option fst (surgery_notification_loop \<lparr>env = env_live, client = wc_fail\<rparr> lib0
         (store_of [status_clear]) False 10 [entry7, entry7] tally0 s_init)
       = Some (None, \<lparr>sent = 0, skipped = 0, errors = 2, notes = []\<rparr>)"
proof -
  have p: "pagination_ends (client \<lparr>env = env_live, client = wc_fail\<rparr>)"
    by (simp add: pagination_ends_wc_fail)
  have a: "fetch_statuses (store_of [status_clear]) entry7 = Inr [status_clear]"
    by (simp add: store_of_def)
  have b: "num_to_word (10 - surgery_date entry7) = Some ''one''"
    by (simp add: entry7_def num_to_word_def)
  have c: "should_send False status_clear (''day_'' @ ''one'')"
    by (simp add: should_send_def status_get_def status_clear_def)
  obtain s1 where d: "send_to_surgery_channel \<lparr>env = env_live, client = wc_fail\<rparr>
         (''Reminder: '' @ base_msg lib0 entry7) True s_init
       = Some (Inl (SlackApiError ''failed'' (Some ''channel_not_found'')), s1)"
    by (simp add: client_defs world_defs)
  have run: "map_option fst (surgery_notification_loop \<lparr>env = env_live, client = wc_fail\<rparr> lib0
         (store_of [status_clear]) False 10 [entry7, entry7] tally0 s_init)
       = Some (None, \<lparr>sent = 0, skipped = 0, errors = 2, notes = []\<rparr>)"
    by (simp add: surgery_notification_entry_def ext_def try_except_else_def dispatch_def
        send_failed_def num_to_word_def should_send_def status_get_def status_clear_def
        base_msg_def emit_line_def client_defs world_defs show_small)
  from first_delivery_failure [OF a b c d, of "[entry7]" tally0] p a b c d run show ?thesis
    by simp
qed

theorem error_isolation_counterexample:
  "map_option fst (send_to_surgery_channel \<lparr>env = env_live, client = wc_fail\<rparr>
         (''Reminder: '' @ base_msg lib0 entry7) True s_init)
       = Some (Inl (SlackApiError ''failed'' (Some ''channel_not_found'')))
   \<and> map_option (calls \<circ> snd) (dm_surgery_manager \<lparr>env = env_live, client = wc_fail\<rparr>
         (base_msg lib0 entry7) s_init)
       = Some [ConversationsOpen ''U1'', ChatPostMessage ''DU1'' (base_msg lib0 entry7)]
   \<and> map_option (calls \<circ> snd) (send_to_shikigami_feed \<lparr>env = env_live, client = wc_fail\<rparr>
         (''[surgery] '' @ base_msg lib0 entry7) False s_init)
       = Some [ChatPostMessage ''C2'' (''[surgery] '' @ base_msg lib0 entry7)]
   \<and> map_option fst (surgery_notification_entry \<lparr>env = env_live, client = wc_fail\<rparr> lib0
         (store_of [status_clear]) False 10 entry7 tally0 s_init)
       = Some (Inr \<lparr>sent = 0, skipped = 0, errors = 1, notes = []\<rparr>)
   \<and> map_option (calls \<circ> snd) (surgery_notification_entry \<lparr>env = env_live, client = wc_fail\<rparr> lib0
         (store_of [status_clear]) False 10 entry7 tally0 s_init)
       = Some [ChatPostMessage ''C1'' (''<!channel> Reminder: '' @ base_msg lib0 entry7)]
   \<and> map_option (map snd \<circ> logs \<circ> snd) (surgery_notification_entry
         \<lparr>env = env_live, client = wc_fail\<rparr> lib0 (store_of [status_clear]) False 10 entry7 tally0 s_init)
       = Some [''[Slack PLAN] target=C1 resolved=C1 dry_run=false text=<!channel> Reminder: ''
                 @ base_msg lib0 entry7,
               ''[Slack ERROR] target=C1 resolved=C1 dry_run=false text=<!channel> Reminder: ''
                 @ base_msg lib0 entry7 @ '' (channel_not_found)'',
               ''[SurgeryNotify ERROR] send failed: failed'',
               ''[Slack SKIP] target=dm:SLACK_SHIKIGAMI_MANAGER dry_run=false text=:rotating_light: Surgery notify send failed: failed (unset:SLACK_SHIKIGAMI_MANAGER)'']"
  by (simp add: surgery_notification_entry_def ext_def try_except_else_def dispatch_def
        send_failed_def num_to_word_def should_send_def status_get_def status_clear_def base_msg_def emit_line_def
        client_defs world_defs show_small)


lemma scan_channels_endless_aux:
  assumes "scan_channels wc cname cursor s = Some y"
  shows "wc \<noteq> wc_endless"
  using assms
proof (induction rule: scan_channels.raw_induct [rotated 1, consumes 1, case_names step])
  case (step scan wc cname cursor s y)
  show ?case
  proof
    assume w: "wc = wc_endless"
    with step(2)
    have rec: "scan wc cname (Some ''more'') (s\<lparr>calls := calls s @ [ConversationsList cursor]\<rparr>) = Some y"
      by (simp add: wc_endless_def or_none_def)
    from step(1) [OF rec] w show False by simp
  qed
qed

lemma scan_channels_endless: "scan_channels wc_endless cname cursor s = None"
proof (cases "scan_channels wc_endless cname cursor s")
  case None
  then show ?thesis .
next
  case (Some y)
  from scan_channels_endless_aux [OF this] show ?thesis by simp
qed




section \<open>The directory resolver\<close>

lemma scan_channels_frame:
  assumes "scan_channels wc cname cursor s = Some y"
  shows "\<exists>rest. snd y = s\<lparr>calls := calls s @ ConversationsList cursor # rest\<rparr>
        \<and> (\<forall>c \<in> set rest. \<exists>k. c = ConversationsList (Some k))"
  using assms
proof (induction rule: scan_channels.raw_induct [rotated 1, consumes 1, case_names step])
  case (step scan wc cname cursor s y)
  show ?case
  proof (cases "conversations_list wc cursor")
    case (Inl e)
    with step(2) show ?thesis by auto
  next
    case (Inr resp)
    show ?thesis
    proof (cases "find (\<lambda>ch. ch_name ch = Some cname) (channels resp)")
      case (Some ch)
      with Inr step(2) show ?thesis by auto
    next
      case None
      show ?thesis
      proof (cases "or_none (ch_next_cursor resp)")
        case n: None
        with None Inr step(2) show ?thesis by auto
      next
        case (Some c)
        with None Inr step(2)
        have rec: "scan wc cname (Some c) (s\<lparr>calls := calls s @ [ConversationsList cursor]\<rparr>) = Some y"
          by simp
        from step(1) [OF rec] obtain rest where
          "snd y = s\<lparr>calls := calls s @ ConversationsList cursor # ConversationsList (Some c) # rest\<rparr>"
          "\<forall>c \<in> set rest. \<exists>k. c = ConversationsList (Some k)"
          by auto
        then show ?thesis
          by (intro exI [of _ "ConversationsList (Some c) # rest"]) auto
      qed
    qed
  qed
qed

lemma scan_users_frame:
  assumes "scan_users wc needle cursor s = Some y"
  shows "(\<exists>more. snd y = s\<lparr>calls := calls s @ more\<rparr>)
       \<and> (\<forall>uid. fst y = Inr (Some uid) \<longrightarrow> live_member_id wc needle uid)"
  using assms
proof (induction rule: scan_users.raw_induct [rotated 1, consumes 1, case_names step])
  case (step scan wc needle cursor s y)
  show ?case
  proof (cases "users_list wc cursor")
    case (Inl e)
    with step(2) show ?thesis by auto
  next
    case (Inr resp)
    show ?thesis
    proof (cases "find (\<lambda>u. \<not> m_deleted u \<and> user_matches needle u) (members resp)")
      case (Some u)
      then have "u \<in> set (members resp)" "\<not> m_deleted u" "user_matches needle u"
        by (auto simp: find_Some_iff)
      then have "\<forall>uid. m_id u = Some uid \<longrightarrow> live_member_id wc needle uid"
        using Inr by (auto simp: live_member_id_def)
      with Some Inr step(2) show ?thesis by auto
    next
      case None
      show ?thesis
      proof (cases "or_none (u_next_cursor resp)")
        case n: None
        with None Inr step(2) show ?thesis by auto
      next
        case (Some c)
        with None Inr step(2)
        have rec: "scan wc needle (Some c) (s\<lparr>calls := calls s @ [UsersList cursor]\<rparr>) = Some y"
          by simp
        from step(1) [OF rec] obtain more where
          "snd y = s\<lparr>calls := calls s @ UsersList cursor # more\<rparr>"
          "\<forall>uid. fst y = Inr (Some uid) \<longrightarrow> live_member_id wc needle uid"
          by auto
        then show ?thesis by auto
      qed
    qed
  qed
qed

lemma scan_starts_scan:
  "\<forall>c \<in> set rest. \<exists>k. c = ConversationsList (Some k) \<Longrightarrow>
     scan_starts (cs @ ConversationsList None # rest) = scan_starts cs + 1"
proof -
  assume "\<forall>c \<in> set rest. \<exists>k. c = ConversationsList (Some k)"
  then have "filter (\<lambda>c. c = ConversationsList None) rest = []"
    by (auto simp: filter_empty_conv)
  then show ?thesis
    by (simp add: scan_starts_def)
qed

lemma resolve_channel_id_body_frame:
  assumes "resolve_channel_id_body sc k s = Some (r, s')"
  shows "channel_cache s' = channel_cache s
       \<and> (if truthy k \<and> \<not> looks_like_id k
           then scan_starts (calls s') = scan_starts (calls s) + 1
           else s' = s \<and> r = Inr (if truthy k then k else None))"
proof (cases "truthy k \<and> \<not> looks_like_id k")
  case False
  with assms show ?thesis
    by (cases k) (auto simp: resolve_channel_id_body_def ret_def split: if_splits)
next
  case True
  then obtain n where k: "k = Some n" "n \<noteq> []" "\<not> looks_like_id (Some n)"
    by (cases k) auto
  from assms k obtain r0 s0 where
    scan: "scan_channels (client sc) (lstrip CHR ''#'' n) None s = Some (r0, s0)"
    by (cases "scan_channels (client sc) (lstrip CHR ''#'' n) None s")
       (auto simp: resolve_channel_id_body_def catch_api_def)
  from scan_channels_frame [OF scan] obtain rest where
    s0: "s0 = s\<lparr>calls := calls s @ ConversationsList None # rest\<rparr>"
      "\<forall>c \<in> set rest. \<exists>k. c = ConversationsList (Some k)"
    by auto
  from assms k scan have "channel_cache s' = channel_cache s0 \<and> calls s' = calls s0"
    by (auto simp: resolve_channel_id_body_def catch_api_def bnd_def emit_log_def app_log_def
          ret_def split: sum.splits exn.splits)
  with s0 True show ?thesis
    by (simp add: scan_starts_scan)
qed


lemma lru_hit_idem: "lru_hit k v (lru_hit k v c) = lru_hit k v c"
  by (simp add: lru_hit_def)

lemma lru_hit_store:
  assumes "map_of c k = None"
  shows "lru_hit k v (lru_store k v c) = lru_store k v c"
proof -
  from assms have "k \<notin> fst ` set c"
    by (simp add: map_of_eq_None_iff)
  then have "\<forall>kv \<in> set (take 255 c). fst kv \<noteq> k"
    by (auto dest: in_set_takeD)
  then have "filter (\<lambda>kv. fst kv \<noteq> k) (take 255 c) = take 255 c"
    by (simp add: filter_id_conv)
  then show ?thesis
    by (simp add: lru_hit_def lru_store_def)
qed

lemma scan_dir_surgery:
  "scan_channels wc_dir ''surgery'' None s =
     Some (Inr (Some ''C9''),
           s\<lparr>calls := calls s @ [ConversationsList None, ConversationsList (Some ''p2'')]\<rparr>)"
  apply (subst scan_channels.simps)
  apply (simp add: wc_dir_def or_none_def)
  apply (subst scan_channels.simps)
  apply (simp add: wc_dir_def)
  done

lemma scan_dir_missing:
  "scan_channels wc_dir ''nowhere'' None s =
     Some (Inr None,
           s\<lparr>calls := calls s @ [ConversationsList None, ConversationsList (Some ''p2'')]\<rparr>)"
  apply (subst scan_channels.simps)
  apply (simp add: wc_dir_def or_none_def)
  apply (subst scan_channels.simps)
  apply (simp add: wc_dir_def or_none_def)
  done

lemma scan_dir_users:
  "scan_users wc_dir needle None s =
     (if needle = ''robert'' \<or> needle = ''bob'' \<or> needle = []
      then Some (Inr (Some ''U2''), s\<lparr>calls := calls s @ [UsersList None]\<rparr>)
      else Some (Inr None, s\<lparr>calls := calls s @ [UsersList None]\<rparr>))"
  apply (subst scan_users.simps)
  apply (simp add: wc_dir_def or_none_def user_matches_def profile_field_def)
  done

lemma literal_cached_hit:
  "literal_cached lit c \<Longrightarrow> map_of c k = Some v \<Longrightarrow> literal_cached lit (lru_hit k v c)"
  using map_of_SomeD [of c k v] by (fastforce simp: literal_cached_def lru_hit_def)

lemma literal_cached_store:
  "literal_cached lit c \<Longrightarrow> (lit k \<Longrightarrow> v = k) \<Longrightarrow> literal_cached lit (lru_store k v c)"
  by (auto simp: literal_cached_def lru_store_def dest: in_set_takeD)

lemma literal_cached_lookup:
  "literal_cached lit c \<Longrightarrow> map_of c k = Some v \<Longrightarrow> lit k \<Longrightarrow> v = k"
  using map_of_SomeD [of c k v] by (fastforce simp: literal_cached_def)

lemma resolve_user_id_body_scan:
  assumes "resolve_user_id_body sc (Some n) s = Some (Inr (Some uid), s')"
    and "\<not> startswith_U n"
  shows "user_cache s' = user_cache s \<and> live_member_id (client sc) (lstrip CHR ''@'' n) uid"
proof -
  from assms have ne: "n \<noteq> []"
    by (auto simp: resolve_user_id_body_def ret_def split: if_splits)
  with assms obtain r0 s0 where
    scan: "scan_users (client sc) (lstrip CHR ''@'' n) None s = Some (r0, s0)"
    by (cases "scan_users (client sc) (lstrip CHR ''@'' n) None s")
       (auto simp: resolve_user_id_body_def catch_api_def)
  from scan_users_frame [OF scan] obtain more where
    s0: "s0 = s\<lparr>calls := calls s @ more\<rparr>"
    and live: "\<forall>uid. r0 = Inr (Some uid) \<longrightarrow> live_member_id (client sc) (lstrip CHR ''@'' n) uid"
    by auto
  from assms ne scan have "r0 = Inr (Some uid) \<and> s' = s0"
    by (auto simp: resolve_user_id_body_def catch_api_def bnd_def emit_log_def app_log_def
          ret_def split: sum.splits exn.splits)
  with s0 live show ?thesis by simp
qed

text \<open>
  The two properties of the cache tables that the statements below assume hold for the empty
  tables of a new instance and are kept by every call of the resolvers; no other operation
  writes these tables.
\<close>

lemma resolve_user_id_body_frame:
  assumes "resolve_user_id_body sc k s = Some (r, s')"
  shows "user_cache s' = user_cache s \<and> (user_literal k \<longrightarrow> r = Inr k \<and> s' = s)"
proof (cases "truthy k \<and> \<not> user_literal k")
  case False
  with assms show ?thesis
    by (cases k) (auto simp: resolve_user_id_body_def ret_def user_literal_def split: if_splits)
next
  case True
  then obtain n where k: "k = Some n" "n \<noteq> []" "\<not> (looks_like_id (Some n) \<and> startswith_U n)"
    by (cases k) (auto simp: user_literal_def)
  from assms k obtain r0 s0 where
    scan: "scan_users (client sc) (lstrip CHR ''@'' n) None s = Some (r0, s0)"
    by (cases "scan_users (client sc) (lstrip CHR ''@'' n) None s")
       (auto simp: resolve_user_id_body_def catch_api_def)
  from scan_users_frame [OF scan] obtain more where
    s0: "s0 = s\<lparr>calls := calls s @ more\<rparr>"
    by auto
  from assms k scan have "user_cache s' = user_cache s0"
    by (auto simp: resolve_user_id_body_def catch_api_def bnd_def emit_log_def app_log_def
          ret_def split: sum.splits exn.splits)
  with s0 True show ?thesis by simp
qed

lemma looks_like_id_truthy: "looks_like_id k \<Longrightarrow> truthy k"
  by (induction k rule: looks_like_id.induct) simp_all

lemma literal_cached_init: "literal_cached lit []"
  by (simp add: literal_cached_def)

lemma resolve_channel_id_keeps_literals:
  assumes "resolve_channel_id sc k s = Some (r, s')"
    and "literal_cached looks_like_id (channel_cache s)"
  shows "literal_cached looks_like_id (channel_cache s')"
proof (cases "map_of (channel_cache s) k")
  case (Some v)
  with assms show ?thesis
    by (auto simp: resolve_channel_id_def literal_cached_hit)
next
  case None
  with assms(1) obtain r0 s0 where
    body: "resolve_channel_id_body sc k s = Some (r0, s0)"
    by (cases "resolve_channel_id_body sc k s") (auto simp: resolve_channel_id_def)
  from resolve_channel_id_body_frame [OF body]
  have fr: "channel_cache s0 = channel_cache s"
    and lit: "looks_like_id k \<Longrightarrow> r0 = Inr k"
    using looks_like_id_truthy [of k] by (auto split: if_splits)
  show ?thesis
  proof (cases r0)
    case (Inl e)
    with None body assms fr show ?thesis
      by (auto simp: resolve_channel_id_def)
  next
    case (Inr v)
    with lit have "looks_like_id k \<Longrightarrow> v = k" by simp
    with assms(2) fr have "literal_cached looks_like_id (lru_store k v (channel_cache s0))"
      by (simp add: literal_cached_store)
    with None body Inr assms(1) show ?thesis
      by (auto simp: resolve_channel_id_def)
  qed
qed

lemma resolve_user_id_keeps_literals:
  assumes "resolve_user_id sc k s = Some (r, s')"
    and "literal_cached user_literal (user_cache s)"
  shows "literal_cached user_literal (user_cache s')"
proof (cases "map_of (user_cache s) k")
  case (Some v)
  with assms show ?thesis
    by (auto simp: resolve_user_id_def literal_cached_hit)
next
  case None
  with assms(1) obtain r0 s0 where
    body: "resolve_user_id_body sc k s = Some (r0, s0)"
    by (cases "resolve_user_id_body sc k s") (auto simp: resolve_user_id_def)
  from resolve_user_id_body_frame [OF body]
  have fr: "user_cache s0 = user_cache s"
    and lit: "user_literal k \<Longrightarrow> r0 = Inr k"
    by auto
  show ?thesis
  proof (cases r0)
    case (Inl e)
    with None body assms fr show ?thesis
      by (auto simp: resolve_user_id_def)
  next
    case (Inr v)
    with lit have "user_literal k \<Longrightarrow> v = k" by simp
    with assms(2) fr have "literal_cached user_literal (lru_store k v (user_cache s0))"
      by (simp add: literal_cached_store)
    with None body Inr assms(1) show ?thesis
      by (auto simp: resolve_user_id_def)
  qed
qed

lemma set_lru_hit: "map_of c k = Some v \<Longrightarrow> set (lru_hit k v c) \<subseteq> set c"
  using map_of_SomeD [of c k v] by (auto simp: lru_hit_def)

lemma scanned_ids_live_mono:
  "set c' \<subseteq> set c \<Longrightarrow> scanned_ids_live wc c \<Longrightarrow> scanned_ids_live wc c'"
  unfolding scanned_ids_live_def by blast

lemma scanned_ids_live_init: "scanned_ids_live wc []"
  by (simp add: scanned_ids_live_def)

lemma resolve_user_id_keeps_scanned_ids_live:
  assumes "resolve_user_id sc k s = Some (r, s')"
    and "scanned_ids_live (client sc) (user_cache s)"
  shows "scanned_ids_live (client sc) (user_cache s')"
proof (cases "map_of (user_cache s) k")
  case (Some v)
  with assms(1) have "user_cache s' = lru_hit k v (user_cache s)"
    by (auto simp: resolve_user_id_def)
  with assms(2) set_lru_hit [OF Some] show ?thesis
    by (simp add: scanned_ids_live_mono)
next
  case None
  with assms(1) obtain r0 s0 where
    body: "resolve_user_id_body sc k s = Some (r0, s0)"
    by (cases "resolve_user_id_body sc k s") (auto simp: resolve_user_id_def)
  from resolve_user_id_body_frame [OF body]
  have fr: "user_cache s0 = user_cache s"
    by simp
  show ?thesis
  proof (cases r0)
    case (Inl e)
    with None body assms fr show ?thesis
      by (auto simp: resolve_user_id_def)
  next
    case (Inr v)
    have new: "live_member_id (client sc) (lstrip CHR ''@'' n) uid"
      if "k = Some n" "v = Some uid" "\<not> startswith_U n" for n uid
      using resolve_user_id_body_scan [of sc n s uid s0] body Inr that by simp
    from None body Inr assms(1)
    have s': "user_cache s' = lru_store k v (user_cache s0)"
      by (auto simp: resolve_user_id_def)
    show ?thesis
      unfolding s' fr scanned_ids_live_def lru_store_def
    proof (intro ballI allI impI)
      fix kv n uid
      assume kv: "kv \<in> set (take 256 ((k, v) # user_cache s))"
        and h: "fst kv = Some n \<and> snd kv = Some uid \<and> \<not> startswith_U n"
      from kv have "kv = (k, v) \<or> kv \<in> set (user_cache s)"
        by (auto dest: in_set_takeD)
      then show "live_member_id (client sc) (lstrip CHR ''@'' n) uid"
      proof
        assume "kv = (k, v)"
        with h show ?thesis by (auto intro: new)
      next
        assume "kv \<in> set (user_cache s)"
        with assms(2) h show ?thesis
          by (auto simp: scanned_ids_live_def)
      qed
    qed
  qed
qed

lemma resolve_channel_id_body_raises:
  assumes "resolve_channel_id_body sc k s = Some (Inl e, s')"
  shows "\<exists>msg. e = OtherException msg"
  using assms
  by (cases k)
     (auto simp: resolve_channel_id_body_def ret_def catch_api_def bnd_def emit_log_def
        app_log_def split: if_splits option.splits sum.splits prod.splits exn.splits)

lemma scan_raise_surgery:
  "scan_channels wc_raise cname None s =
     Some (Inl (OtherException ''timed out''), s\<lparr>calls := calls s @ [ConversationsList None]\<rparr>)"
  by (subst scan_channels.simps) (simp add: wc_raise_def)

text \<open>
  C8 (as the code has it). When a call of \<^verbatim>\<open>resolve_channel_id\<close> returns a result (a channel
  id or \<^verbatim>\<open>None\<close>), the next call with the same label on the same instance is a cache hit: it
  returns the same result and changes nothing, so it issues no network call. The first call
  starts at most one scan of the channel directory: exactly one when the label is a name (not
  empty, not of literal shape) that was not cached before. When the label is empty or a
  literal identifier the call always returns a result and issues no call at all. A call that
  raises (only an exception other
  than \<^verbatim>\<open>SlackApiError\<close> gets out) stores nothing: the label is not cached after it.
\<close>

theorem cache_hit_after_resolve:
  "(\<forall>r s1. resolve_channel_id sc label s = Some (Inr r, s1) \<longrightarrow>
       resolve_channel_id sc label s1 = Some (Inr r, s1)
         \<and> scan_starts (calls s1) \<le> scan_starts (calls s) + 1
         \<and> (truthy label \<and> \<not> looks_like_id label \<and> map_of (channel_cache s) label = None
              \<longrightarrow> scan_starts (calls s1) = scan_starts (calls s) + 1)
         \<and> (\<not> truthy label \<or> looks_like_id label \<longrightarrow> calls s1 = calls s))
   \<and> (\<forall>e s1. resolve_channel_id sc label s = Some (Inl e, s1) \<longrightarrow>
         (\<exists>msg. e = OtherException msg)
           \<and> channel_cache s1 = channel_cache s
           \<and> map_of (channel_cache s1) label = None)
   \<and> (\<not> truthy label \<or> looks_like_id label \<longrightarrow>
         (\<exists>r s1. resolve_channel_id sc label s = Some (Inr r, s1)))"
proof (intro conjI)
  show "\<forall>r s1. resolve_channel_id sc label s = Some (Inr r, s1) \<longrightarrow>
       resolve_channel_id sc label s1 = Some (Inr r, s1)
         \<and> scan_starts (calls s1) \<le> scan_starts (calls s) + 1
         \<and> (truthy label \<and> \<not> looks_like_id label \<and> map_of (channel_cache s) label = None
              \<longrightarrow> scan_starts (calls s1) = scan_starts (calls s) + 1)
         \<and> (\<not> truthy label \<or> looks_like_id label \<longrightarrow> calls s1 = calls s)"
  proof (intro allI impI)
  fix r s1
  assume run: "resolve_channel_id sc label s = Some (Inr r, s1)"
  show "resolve_channel_id sc label s1 = Some (Inr r, s1)
         \<and> scan_starts (calls s1) \<le> scan_starts (calls s) + 1
         \<and> (truthy label \<and> \<not> looks_like_id label \<and> map_of (channel_cache s) label = None
              \<longrightarrow> scan_starts (calls s1) = scan_starts (calls s) + 1)
         \<and> (\<not> truthy label \<or> looks_like_id label \<longrightarrow> calls s1 = calls s)"
  proof (cases "map_of (channel_cache s) label")
    case (Some v)
    with run have s1: "r = v" "s1 = s\<lparr>channel_cache := lru_hit label v (channel_cache s)\<rparr>"
      by (auto simp: resolve_channel_id_def)
    then have "map_of (channel_cache s1) label = Some v"
      by (simp add: lru_hit_def)
    with s1 have "resolve_channel_id sc label s1 = Some (Inr r, s1)"
      by (simp add: resolve_channel_id_def lru_hit_idem)
    with s1 Some show ?thesis by simp
  next
    case None
    with run obtain s' where
      body: "resolve_channel_id_body sc label s = Some (Inr r, s')"
      and s1: "s1 = s'\<lparr>channel_cache := lru_store label r (channel_cache s')\<rparr>"
      by (auto simp: resolve_channel_id_def split: option.splits sum.splits prod.splits)
    from resolve_channel_id_body_frame [OF body]
    have fr: "channel_cache s' = channel_cache s"
      and cnt: "if truthy label \<and> \<not> looks_like_id label
                then scan_starts (calls s') = scan_starts (calls s) + 1
                else s' = s \<and> Inr r = (Inr (if truthy label then label else None) :: exn + string option)"
      by simp_all
    from s1 have hit: "map_of (channel_cache s1) label = Some r"
      by (simp add: lru_store_def)
    from None fr have "lru_hit label r (lru_store label r (channel_cache s')) =
        lru_store label r (channel_cache s')"
      by (simp add: lru_hit_store)
    with hit s1 have "resolve_channel_id sc label s1 = Some (Inr r, s1)"
      by (simp add: resolve_channel_id_def)
    moreover from s1 cnt have "scan_starts (calls s1) \<le> scan_starts (calls s) + 1"
      by (auto split: if_splits)
    moreover from s1 cnt have "truthy label \<and> \<not> looks_like_id label
        \<longrightarrow> scan_starts (calls s1) = scan_starts (calls s) + 1"
      by (auto split: if_splits)
    moreover from s1 cnt looks_like_id_truthy [of label]
    have "\<not> truthy label \<or> looks_like_id label \<longrightarrow> calls s1 = calls s"
      by (auto split: if_splits)
    ultimately show ?thesis by simp
  qed
  qed
next
  show "\<forall>e s1. resolve_channel_id sc label s = Some (Inl e, s1) \<longrightarrow>
         (\<exists>msg. e = OtherException msg)
           \<and> channel_cache s1 = channel_cache s
           \<and> map_of (channel_cache s1) label = None"
  proof (intro allI impI)
  fix e s1
  assume run: "resolve_channel_id sc label s = Some (Inl e, s1)"
  then have miss: "map_of (channel_cache s) label = None"
    by (auto simp: resolve_channel_id_def split: option.splits)
  with run have body: "resolve_channel_id_body sc label s = Some (Inl e, s1)"
    by (auto simp: resolve_channel_id_def split: option.splits sum.splits prod.splits)
  from resolve_channel_id_body_frame [OF body] have fr: "channel_cache s1 = channel_cache s"
    by simp
  from resolve_channel_id_body_raises [OF body] fr miss
  show "(\<exists>msg. e = OtherException msg)
           \<and> channel_cache s1 = channel_cache s
           \<and> map_of (channel_cache s1) label = None"
    by simp
  qed
next
  show "\<not> truthy label \<or> looks_like_id label \<longrightarrow>
         (\<exists>r s1. resolve_channel_id sc label s = Some (Inr r, s1))"
  proof
    assume lit: "\<not> truthy label \<or> looks_like_id label"
    then have body: "resolve_channel_id_body sc label s =
        Some (Inr (if truthy label then label else None), s)"
      using looks_like_id_truthy [of label]
      by (cases label) (auto simp: resolve_channel_id_body_def ret_def)
    show "\<exists>r s1. resolve_channel_id sc label s = Some (Inr r, s1)"
      by (cases "map_of (channel_cache s) label") (simp_all add: resolve_channel_id_def body)
  qed
qed

theorem cache_hit_after_resolve_witness:
  "resolve_channel_id \<lparr>env = env_live, client = wc_dir\<rparr> (Some ''#surgery'') s_init =
     Some (Inr (Some ''C9''),
           s_init\<lparr>calls := [ConversationsList None, ConversationsList (Some ''p2'')],
                  channel_cache := [(Some ''#surgery'', Some ''C9'')]\<rparr>)
   \<and> resolve_channel_id \<lparr>env = env_live, client = wc_dir\<rparr> (Some ''#surgery'')
        (s_init\<lparr>calls := [ConversationsList None, ConversationsList (Some ''p2'')],
                channel_cache := [(Some ''#surgery'', Some ''C9'')]\<rparr>) =
     Some (Inr (Some ''C9''),
           s_init\<lparr>calls := [ConversationsList None, ConversationsList (Some ''p2'')],
                  channel_cache := [(Some ''#surgery'', Some ''C9'')]\<rparr>)
   \<and> resolve_channel_id \<lparr>env = env_live, client = wc_dir\<rparr> (Some ''#nowhere'') s_init =
     Some (Inr None,
           s_init\<lparr>calls := [ConversationsList None, ConversationsList (Some ''p2'')],
                  channel_cache := [(Some ''#nowhere'', None)]\<rparr>)
   \<and> resolve_channel_id \<lparr>env = env_live, client = wc_dir\<rparr> (Some ''#nowhere'')
        (s_init\<lparr>calls := [ConversationsList None, ConversationsList (Some ''p2'')],
                channel_cache := [(Some ''#nowhere'', None)]\<rparr>) =
     Some (Inr None,
           s_init\<lparr>calls := [ConversationsList None, ConversationsList (Some ''p2'')],
                  channel_cache := [(Some ''#nowhere'', None)]\<rparr>)
   \<and> scan_starts [ConversationsList None, ConversationsList (Some ''p2'')] = 1
   \<and> resolve_channel_id \<lparr>env = env_live, client = wc_dir\<rparr> (Some ''G0123'') s_init =
     Some (Inr (Some ''G0123''), s_init\<lparr>channel_cache := [(Some ''G0123'', Some ''G0123'')]\<rparr>)
   \<and> resolve_channel_id \<lparr>env = env_live, client = wc_raise\<rparr> (Some ''#surgery'') s_init =
     Some (Inl (OtherException ''timed out''), s_init\<lparr>calls := [ConversationsList None]\<rparr>)
   \<and> map_of (channel_cache (s_init\<lparr>calls := [ConversationsList None]\<rparr>)) (Some ''#surgery'') = None"
proof -
  have found: "resolve_channel_id \<lparr>env = env_live, client = wc_dir\<rparr> (Some ''#surgery'') s_init =
     Some (Inr (Some ''C9''),
           s_init\<lparr>calls := [ConversationsList None, ConversationsList (Some ''p2'')],
                  channel_cache := [(Some ''#surgery'', Some ''C9'')]\<rparr>)"
    by (simp add: resolve_channel_id_def resolve_channel_id_body_def catch_api_def lstrip_def
          scan_dir_surgery lru_store_def s_init_def)
  have missing: "resolve_channel_id \<lparr>env = env_live, client = wc_dir\<rparr> (Some ''#nowhere'') s_init =
     Some (Inr None,
           s_init\<lparr>calls := [ConversationsList None, ConversationsList (Some ''p2'')],
                  channel_cache := [(Some ''#nowhere'', None)]\<rparr>)"
    by (simp add: resolve_channel_id_def resolve_channel_id_body_def catch_api_def lstrip_def
          scan_dir_missing lru_store_def s_init_def)
  have literal: "resolve_channel_id \<lparr>env = env_live, client = wc_dir\<rparr> (Some ''G0123'') s_init =
     Some (Inr (Some ''G0123''), s_init\<lparr>channel_cache := [(Some ''G0123'', Some ''G0123'')]\<rparr>)"
    by (simp add: resolve_channel_id_def resolve_channel_id_body_def ret_def lru_store_def s_init_def)
  have raised: "resolve_channel_id \<lparr>env = env_live, client = wc_raise\<rparr> (Some ''#surgery'') s_init =
     Some (Inl (OtherException ''timed out''), s_init\<lparr>calls := [ConversationsList None]\<rparr>)"
    by (simp add: resolve_channel_id_def resolve_channel_id_body_def catch_api_def lstrip_def
          scan_raise_surgery s_init_def)
  let ?dir = "\<lparr>env = env_live, client = wc_dir\<rparr>"
  from cache_hit_after_resolve [of ?dir "Some ''#surgery''" s_init] found
  have h1: "resolve_channel_id ?dir (Some ''#surgery'')
        (s_init\<lparr>calls := [ConversationsList None, ConversationsList (Some ''p2'')],
                channel_cache := [(Some ''#surgery'', Some ''C9'')]\<rparr>) =
     Some (Inr (Some ''C9''),
           s_init\<lparr>calls := [ConversationsList None, ConversationsList (Some ''p2'')],
                  channel_cache := [(Some ''#surgery'', Some ''C9'')]\<rparr>)"
    by blast
  from cache_hit_after_resolve [of ?dir "Some ''#nowhere''" s_init] missing
  have h2: "resolve_channel_id ?dir (Some ''#nowhere'')
        (s_init\<lparr>calls := [ConversationsList None, ConversationsList (Some ''p2'')],
                channel_cache := [(Some ''#nowhere'', None)]\<rparr>) =
     Some (Inr None,
           s_init\<lparr>calls := [ConversationsList None, ConversationsList (Some ''p2'')],
                  channel_cache := [(Some ''#nowhere'', None)]\<rparr>)"
    by blast
  from cache_hit_after_resolve [of "\<lparr>env = env_live, client = wc_raise\<rparr>" "Some ''#surgery''" s_init]
    raised
  have h3: "map_of (channel_cache (s_init\<lparr>calls := [ConversationsList None]\<rparr>)) (Some ''#surgery'') = None"
    by blast
  have h4: "scan_starts [ConversationsList None, ConversationsList (Some ''p2'')] = 1"
    by (simp add: scan_starts_def)
  from found h1 missing h2 h4 literal raised h3 show ?thesis
    by (intro conjI)
qed

theorem cache_scan_count_counterexample:
  "resolve_channel_id \<lparr>env = env_live, client = wc_dir\<rparr> (Some ''C0123'') s_init =
     Some (Inr (Some ''C0123''), s_init\<lparr>channel_cache := [(Some ''C0123'', Some ''C0123'')]\<rparr>)
   \<and> resolve_channel_id \<lparr>env = env_live, client = wc_dir\<rparr> (Some ''C0123'')
        (s_init\<lparr>channel_cache := [(Some ''C0123'', Some ''C0123'')]\<rparr>) =
     Some (Inr (Some ''C0123''), s_init\<lparr>channel_cache := [(Some ''C0123'', Some ''C0123'')]\<rparr>)
   \<and> calls (s_init\<lparr>channel_cache := [(Some ''C0123'', Some ''C0123'')]\<rparr>) = []
   \<and> scan_starts (calls (s_init\<lparr>channel_cache := [(Some ''C0123'', Some ''C0123'')]\<rparr>)) = 0
   \<and> resolve_channel_id \<lparr>env = env_live, client = wc_raise\<rparr> (Some ''#surgery'') s_init =
     Some (Inl (OtherException ''timed out''), s_init\<lparr>calls := [ConversationsList None]\<rparr>)
   \<and> resolve_channel_id \<lparr>env = env_live, client = wc_raise\<rparr> (Some ''#surgery'')
        (s_init\<lparr>calls := [ConversationsList None]\<rparr>) =
     Some (Inl (OtherException ''timed out''),
           s_init\<lparr>calls := [ConversationsList None, ConversationsList None]\<rparr>)
   \<and> scan_starts [ConversationsList None, ConversationsList None] = 2"
  by (simp add: resolve_channel_id_def resolve_channel_id_body_def ret_def lru_store_def lru_hit_def
        catch_api_def lstrip_def scan_raise_surgery s_init_def scan_starts_def)

lemma scan_users_first_call:
  assumes "scan_users wc needle cursor s = Some y"
  shows "\<exists>more. snd y = s\<lparr>calls := calls s @ UsersList cursor # more\<rparr>"
  using assms
proof (induction rule: scan_users.raw_induct [rotated 1, consumes 1, case_names step])
  case (step scan wc needle cursor s y)
  show ?case
  proof (cases "users_list wc cursor")
    case (Inl e)
    with step(2) show ?thesis by auto
  next
    case (Inr resp)
    show ?thesis
    proof (cases "find (\<lambda>u. \<not> m_deleted u \<and> user_matches needle u) (members resp)")
      case (Some u)
      with Inr step(2) show ?thesis by auto
    next
      case None
      show ?thesis
      proof (cases "or_none (u_next_cursor resp)")
        case n: None
        with None Inr step(2) show ?thesis by auto
      next
        case (Some c)
        with None Inr step(2)
        have rec: "scan wc needle (Some c) (s\<lparr>calls := calls s @ [UsersList cursor]\<rparr>) = Some y"
          by simp
        from step(1) [OF rec] obtain more where
          "snd y = s\<lparr>calls := calls s @ UsersList cursor # UsersList (Some c) # more\<rparr>"
          by auto
        then show ?thesis
          by (intro exI [of _ "UsersList (Some c) # more"]) simp
      qed
    qed
  qed
qed

lemma resolve_user_id_body_name:
  assumes "resolve_user_id_body sc (Some n) s = Some (r, s')"
    and "n \<noteq> []" and "\<not> startswith_U n"
  shows "\<exists>more. calls s' = calls s @ UsersList None # more"
proof -
  from assms obtain r0 s0 where
    scan: "scan_users (client sc) (lstrip CHR ''@'' n) None s = Some (r0, s0)"
    by (cases "scan_users (client sc) (lstrip CHR ''@'' n) None s")
       (auto simp: resolve_user_id_body_def catch_api_def)
  from scan_users_first_call [OF scan] obtain more where
    s0: "s0 = s\<lparr>calls := calls s @ UsersList None # more\<rparr>"
    by auto
  from assms scan have "calls s' = calls s0"
    by (auto simp: resolve_user_id_body_def catch_api_def bnd_def emit_log_def app_log_def
          ret_def split: sum.splits exn.splits)
  with s0 show ?thesis by simp
qed

text \<open>
  C9 (as the code has it). \<^verbatim>\<open>resolve_channel_id\<close> returns every input that starts with C, D,
  G or U as it is, without a network call and without a log line. \<^verbatim>\<open>resolve_user_id\<close> does
  so for the inputs that start with U only. An input that starts with C, D or G is a user
  name for it: unless the name is already cached, every call that returns has issued a
  \<^verbatim>\<open>users_list\<close> scan, beginning with the call without cursor, and an identifier it returns
  is that of a listed member, not deleted, of that name.
\<close>

theorem literal_passthrough:
  assumes "looks_like_id (Some n)"
  shows "(literal_cached looks_like_id (channel_cache s) \<longrightarrow>
           (\<exists>s'. resolve_channel_id sc (Some n) s = Some (Inr (Some n), s')
              \<and> calls s' = calls s \<and> logs s' = logs s
              \<and> literal_cached looks_like_id (channel_cache s')))
       \<and> (startswith_U n \<and> literal_cached user_literal (user_cache s) \<longrightarrow>
           (\<exists>s'. resolve_user_id sc (Some n) s = Some (Inr (Some n), s')
              \<and> calls s' = calls s \<and> logs s' = logs s
              \<and> literal_cached user_literal (user_cache s')))
       \<and> (\<not> startswith_U n \<and> map_of (user_cache s) (Some n) = None \<longrightarrow>
           (\<forall>r s'. resolve_user_id sc (Some n) s = Some (r, s') \<longrightarrow>
              (\<exists>more. calls s' = calls s @ UsersList None # more)
                \<and> (\<forall>uid. r = Inr (Some uid) \<longrightarrow>
                      live_member_id (client sc) (lstrip CHR ''@'' n) uid)))"
proof (intro conjI impI)
  assume inv: "literal_cached looks_like_id (channel_cache s)"
  from assms have ne: "n \<noteq> []" by (cases n) auto
  show "\<exists>s'. resolve_channel_id sc (Some n) s = Some (Inr (Some n), s')
          \<and> calls s' = calls s \<and> logs s' = logs s
          \<and> literal_cached looks_like_id (channel_cache s')"
  proof (cases "map_of (channel_cache s) (Some n)")
    case None
    with assms ne inv show ?thesis
      by (simp add: resolve_channel_id_def resolve_channel_id_body_def ret_def literal_cached_store)
  next
    case (Some v)
    with inv assms have "v = Some n"
      by (auto dest: literal_cached_lookup)
    with Some inv show ?thesis
      by (simp add: resolve_channel_id_def literal_cached_hit)
  qed
next
  assume a: "startswith_U n \<and> literal_cached user_literal (user_cache s)"
  from assms have ne: "n \<noteq> []" by (cases n) auto
  from a assms have lit: "user_literal (Some n)"
    by (simp add: user_literal_def)
  show "\<exists>s'. resolve_user_id sc (Some n) s = Some (Inr (Some n), s')
          \<and> calls s' = calls s \<and> logs s' = logs s
          \<and> literal_cached user_literal (user_cache s')"
  proof (cases "map_of (user_cache s) (Some n)")
    case None
    with assms ne a show ?thesis
      by (simp add: resolve_user_id_def resolve_user_id_body_def ret_def literal_cached_store)
  next
    case (Some v)
    with a lit have "v = Some n"
      by (auto dest: literal_cached_lookup)
    with Some a show ?thesis
      by (simp add: resolve_user_id_def literal_cached_hit)
  qed
next
  assume b: "\<not> startswith_U n \<and> map_of (user_cache s) (Some n) = None"
  from assms have ne: "n \<noteq> []" by (cases n) auto
  show "\<forall>r s'. resolve_user_id sc (Some n) s = Some (r, s') \<longrightarrow>
          (\<exists>more. calls s' = calls s @ UsersList None # more)
            \<and> (\<forall>uid. r = Inr (Some uid) \<longrightarrow>
                  live_member_id (client sc) (lstrip CHR ''@'' n) uid)"
  proof (intro allI impI)
    fix r s'
    assume run: "resolve_user_id sc (Some n) s = Some (r, s')"
    with b obtain s0 where
      body: "resolve_user_id_body sc (Some n) s = Some (r, s0)"
      and calls: "calls s' = calls s0"
      by (cases "resolve_user_id_body sc (Some n) s")
         (auto simp: resolve_user_id_def split: sum.splits)
    from resolve_user_id_body_name [OF body ne] b calls
    have first: "\<exists>more. calls s' = calls s @ UsersList None # more"
      by simp
    have "live_member_id (client sc) (lstrip CHR ''@'' n) uid" if "r = Inr (Some uid)" for uid
      using resolve_user_id_body_scan [of sc n s uid s0] body b that by simp
    with first show "(\<exists>more. calls s' = calls s @ UsersList None # more)
            \<and> (\<forall>uid. r = Inr (Some uid) \<longrightarrow>
                  live_member_id (client sc) (lstrip CHR ''@'' n) uid)"
      by blast
  qed
qed

theorem literal_passthrough_witness:
  "looks_like_id (Some ''U0123'') \<and> startswith_U ''U0123''
   \<and> literal_cached looks_like_id (channel_cache s_init)
   \<and> literal_cached user_literal (user_cache s_init)
   \<and> resolve_channel_id \<lparr>env = env_live, client = wc_dir\<rparr> (Some ''U0123'') s_init =
       Some (Inr (Some ''U0123''), s_init\<lparr>channel_cache := [(Some ''U0123'', Some ''U0123'')]\<rparr>)
   \<and> resolve_user_id \<lparr>env = env_live, client = wc_dir\<rparr> (Some ''U0123'') s_init =
       Some (Inr (Some ''U0123''), s_init\<lparr>user_cache := [(Some ''U0123'', Some ''U0123'')]\<rparr>)
   \<and> looks_like_id (Some ''G0123'') \<and> \<not> startswith_U ''G0123''
   \<and> map_of (user_cache s_init) (Some ''G0123'') = None
   \<and> resolve_user_id \<lparr>env = env_live, client = wc_dir\<rparr> (Some ''G0123'') s_init =
       Some (Inr None, s_init\<lparr>calls := [UsersList None], user_cache := [(Some ''G0123'', None)]\<rparr>)"
proof -
  have g: "resolve_user_id \<lparr>env = env_live, client = wc_dir\<rparr> (Some ''G0123'') s_init =
       Some (Inr None, s_init\<lparr>calls := [UsersList None], user_cache := [(Some ''G0123'', None)]\<rparr>)"
    by (simp add: resolve_user_id_def resolve_user_id_body_def catch_api_def lstrip_def
          scan_dir_users lru_store_def s_init_def)
  from literal_passthrough [of "''U0123''" s_init "\<lparr>env = env_live, client = wc_dir\<rparr>"]
    literal_passthrough [of "''G0123''" s_init "\<lparr>env = env_live, client = wc_dir\<rparr>"] g
  show ?thesis
    by (simp add: literal_cached_def s_init_def resolve_channel_id_def resolve_channel_id_body_def
          resolve_user_id_def resolve_user_id_body_def ret_def lru_store_def)
qed

theorem literal_passthrough_user_counterexample:
  "looks_like_id (Some ''C0123'')
   \<and> resolve_user_id \<lparr>env = env_live, client = wc_dir\<rparr> (Some ''C0123'') s_init =
       Some (Inr None, s_init\<lparr>calls := [UsersList None], user_cache := [(Some ''C0123'', None)]\<rparr>)"
  by (simp add: resolve_user_id_def resolve_user_id_body_def catch_api_def lstrip_def
        scan_dir_users lru_store_def s_init_def)

text \<open>
  C10 (as the code has it). For an input that does not start with U, the identifier that
  \<^verbatim>\<open>resolve_user_id\<close> returns, if any, is the \<^verbatim>\<open>id\<close> of a member that a page of the directory
  lists as not deleted and whose user name, display name or real name is the searched name.
  An input that starts with U is returned as it is, whoever it names.
\<close>

theorem deleted_members_excluded:
  assumes "resolve_user_id sc (Some n) s = Some (Inr (Some uid), s')"
    and "\<not> startswith_U n"
    and "scanned_ids_live (client sc) (user_cache s)"
  shows "live_member_id (client sc) (lstrip CHR ''@'' n) uid
       \<and> scanned_ids_live (client sc) (user_cache s')"
proof (cases "map_of (user_cache s) (Some n)")
  case (Some v)
  with assms(1) have v: "v = Some uid"
    and s': "s' = s\<lparr>user_cache := lru_hit (Some n) v (user_cache s)\<rparr>"
    by (auto simp: resolve_user_id_def)
  from Some v have "(Some n, Some uid) \<in> set (user_cache s)"
    by (auto dest: map_of_SomeD)
  with assms(2,3) have live: "live_member_id (client sc) (lstrip CHR ''@'' n) uid"
    by (auto simp: scanned_ids_live_def)
  with assms(2,3) s' v show ?thesis
    by (auto simp: scanned_ids_live_def lru_hit_def)
next
  case None
  with assms(1) obtain s0 where
    body: "resolve_user_id_body sc (Some n) s = Some (Inr (Some uid), s0)"
    and s': "s' = s0\<lparr>user_cache := lru_store (Some n) (Some uid) (user_cache s0)\<rparr>"
    by (auto simp: resolve_user_id_def split: option.splits sum.splits prod.splits)
  from resolve_user_id_body_scan [OF body assms(2)]
  have fr: "user_cache s0 = user_cache s"
    and live: "live_member_id (client sc) (lstrip CHR ''@'' n) uid"
    by simp_all
  with assms(3) s' show ?thesis
    by (auto simp: scanned_ids_live_def lru_store_def dest: in_set_takeD)
qed

theorem deleted_members_excluded_witness:
  "resolve_user_id \<lparr>env = env_live, client = wc_dir\<rparr> (Some ''@bob'') s_init =
       Some (Inr (Some ''U2''), s_init\<lparr>calls := [UsersList None], user_cache := [(Some ''@bob'', Some ''U2'')]\<rparr>)
   \<and> \<not> startswith_U ''@bob''
   \<and> scanned_ids_live (client \<lparr>env = env_live, client = wc_dir\<rparr>) (user_cache s_init)
   \<and> live_member_id wc_dir ''bob'' ''U2''"
proof -
  have run: "resolve_user_id \<lparr>env = env_live, client = wc_dir\<rparr> (Some ''@bob'') s_init =
       Some (Inr (Some ''U2''), s_init\<lparr>calls := [UsersList None], user_cache := [(Some ''@bob'', Some ''U2'')]\<rparr>)"
    by (simp add: resolve_user_id_def resolve_user_id_body_def catch_api_def lstrip_def
          scan_dir_users lru_store_def s_init_def)
  have nu: "\<not> startswith_U ''@bob''" by simp
  have inv: "scanned_ids_live (client \<lparr>env = env_live, client = wc_dir\<rparr>) (user_cache s_init)"
    by (simp add: scanned_ids_live_def s_init_def)
  from deleted_members_excluded [OF run nu inv] run nu inv show ?thesis
    by (simp add: lstrip_def)
qed

theorem deleted_member_literal_counterexample:
  "users_list wc_dir None = Inr \<lparr>members =
          [\<lparr>m_deleted = True, m_name = Some ''bob'', m_profile = None, m_id = Some ''UDEAD''\<rparr>,
           \<lparr>m_deleted = False, m_name = Some ''robert'',
            m_profile = Some \<lparr>display_name = Some ''bob'', real_name = None\<rparr>,
            m_id = Some ''U2''\<rparr>],
          u_next_cursor = None\<rparr>
   \<and> resolve_user_id \<lparr>env = env_live, client = wc_dir\<rparr> (Some ''UDEAD'') s_init =
       Some (Inr (Some ''UDEAD''), s_init\<lparr>user_cache := [(Some ''UDEAD'', Some ''UDEAD'')]\<rparr>)"
  by (simp add: wc_dir_def resolve_user_id_def resolve_user_id_body_def ret_def lru_store_def
        s_init_def)

end
